theory Spec2Isabelle
  imports Complex_Main "HOL-Library.Word" "HOL-Library.Signed_Division"
begin

text \<open>
  A model of the ESP32 web-controller sketch: the text layout of \<open>drawMessage\<close>, the
  canvas decoder \<open>parseCanvasData\<close>, the five border animations, the fetch functions and
  the mode controller (\<open>initCurrentMode\<close>, \<open>loop\<close>). The repository holds the sketch in
  two versions; the model follows the SH1106 version (the one with the welcome screen and
  the "no city chosen" state). \<open>drawMessage\<close>, \<open>parseCanvasData\<close>, the animations and
  \<open>fetchUserData\<close> are the same in both.

  Global variables become fields of a record that every function takes and returns.
  Drawing on the display, serial output and delays do not change a variable and are left
  out, except in \<open>drawMessage\<close>, whose printed lines are its result.
\<close>

section \<open>The Arduino String operations the sketch uses\<close>

text \<open>
  An Arduino \<open>String\<close> is modelled by the list of its characters (the bytes before the
  terminating NUL). The operations below follow the ESP32 Arduino core (\<open>WString.cpp\<close>),
  with what they do out of range written out: \<open>operator[]\<close> answers the NUL character for
  an index past the end, \<open>substring\<close> swaps its bounds when they are out of order and
  clips the right bound to the length, \<open>indexOf\<close> answers \<open>-1\<close> when nothing is found, and
  \<open>toInt\<close> is the C library's \<open>atol\<close> (surrounding text ignored, 0 for a token that does not
  start with a number, saturation at the ends of the 32-bit \<open>long\<close>).
\<close>

definition charAt :: "string \<Rightarrow> nat \<Rightarrow> char" where
  "charAt s i = (if i < length s then s ! i else CHR 0x00)"

definition substring :: "string \<Rightarrow> nat \<Rightarrow> nat \<Rightarrow> string" where
  "substring s left right =
     (let l = (if left > right then right else left);
          r = (if left > right then left else right)
      in if l \<ge> length s then []
         else take ((if r > length s then length s else r) - l) (drop l s))"

definition substringFrom :: "string \<Rightarrow> nat \<Rightarrow> string" where
  "substringFrom s left = substring s left (length s)"

definition isspace :: "char \<Rightarrow> bool" where
  "isspace c = (c = CHR 0x20 \<or> c = CHR 0x09 \<or> c = CHR 0x0A \<or> c = CHR 0x0B
                \<or> c = CHR 0x0C \<or> c = CHR 0x0D)"

definition trim :: "string \<Rightarrow> string" where
  "trim s = rev (dropWhile isspace (rev (dropWhile isspace s)))"

fun indexFrom :: "char \<Rightarrow> string \<Rightarrow> nat \<Rightarrow> int" where
  "indexFrom ch [] n = -1"
| "indexFrom ch (c # cs) n = (if c = ch then int n else indexFrom ch cs (Suc n))"

definition indexOf :: "string \<Rightarrow> char \<Rightarrow> nat \<Rightarrow> int" where
  "indexOf s ch fromIndex =
     (if fromIndex \<ge> length s then -1 else indexFrom ch (drop fromIndex s) fromIndex)"

definition isdigit :: "char \<Rightarrow> bool" where
  "isdigit c = (48 \<le> (of_char c :: nat) \<and> (of_char c :: nat) \<le> 57)"

fun digitsValue :: "string \<Rightarrow> int \<Rightarrow> int" where
  "digitsValue [] acc = acc"
| "digitsValue (c # cs) acc =
     (if isdigit c then digitsValue cs (acc * 10 + (of_char c - 48)) else acc)"

definition LONG_MAX :: int where "LONG_MAX = 2147483647"
definition LONG_MIN :: int where "LONG_MIN = - 2147483648"

definition saturate :: "int \<Rightarrow> int" where
  "saturate v = (if v > LONG_MAX then LONG_MAX else if v < LONG_MIN then LONG_MIN else v)"

definition toInt :: "string \<Rightarrow> int" where
  "toInt s =
     (case dropWhile isspace s of
        [] \<Rightarrow> 0
      | c # cs \<Rightarrow>
          if c = CHR ''-'' then saturate (- digitsValue cs 0)
          else if c = CHR ''+'' then saturate (digitsValue cs 0)
          else saturate (digitsValue (c # cs) 0))"

section \<open>Text layout: \<open>drawMessage\<close>\<close>

text \<open>
  \<open>drawMessage\<close> first fills the array \<open>lines\<close> (the wrapping loop) and then prints each
  entry centred. The two local constants \<open>MAX_CHARS_PER_LINE\<close> and \<open>MAX_LINES\<close> are
  arguments of the wrapping functions, so that the same loop can be run at another
  column limit; \<open>drawMessage\<close> itself runs it at 19 and 5.
  The array \<open>lines\<close> together with the counter \<open>numLines\<close> is the list of
  the entries written so far.
\<close>

definition MAX_CHARS_PER_LINE :: nat where "MAX_CHARS_PER_LINE = 19"
definition MAX_LINES :: nat where "MAX_LINES = 5"
definition SCREEN_WIDTH :: int where "SCREEN_WIDTH = 128"
definition SCREEN_HEIGHT :: int where "SCREEN_HEIGHT = 64"

text \<open>The inner \<open>for (j = MAX_CHARS_PER_LINE; j > 0; j--)\<close>: the largest \<open>j\<close> in
  \<open>1..limit\<close> with a space at \<open>segment[j]\<close>, or the initial value of \<open>breakAt\<close>.\<close>

fun findBreak :: "string \<Rightarrow> nat \<Rightarrow> nat \<Rightarrow> nat" where
  "findBreak segment 0 breakAt = breakAt"
| "findBreak segment (Suc j) breakAt =
     (if charAt segment (Suc j) = CHR 0x20 then Suc j else findBreak segment j breakAt)"

text \<open>The \<open>while (segment.length() > 0 && numLines < MAX_LINES)\<close> loop.\<close>

function wrapSegment :: "nat \<Rightarrow> nat \<Rightarrow> string \<Rightarrow> string list \<Rightarrow> string list" where
  "wrapSegment maxChars maxLines segment lines =
     (if length segment > 0 \<and> length lines < maxLines then
        (if length segment \<le> maxChars then lines @ [segment]
         else
           (let breakAt = findBreak segment maxChars maxChars
            in wrapSegment maxChars maxLines (trim (substringFrom segment breakAt))
                 (lines @ [substring segment 0 breakAt])))
      else lines)"
  by pat_completeness auto
termination
  by (relation "measure (\<lambda>(maxChars, maxLines, segment, lines). maxLines - length lines)") auto

text \<open>The outer \<open>for (i = 0; i <= msg.length() && numLines < MAX_LINES; i++)\<close> loop.\<close>

function layoutLoop ::
  "nat \<Rightarrow> nat \<Rightarrow> string \<Rightarrow> nat \<Rightarrow> nat \<Rightarrow> string list \<Rightarrow> string list" where
  "layoutLoop maxChars maxLines msg i lineStart lines =
     (if i \<le> length msg \<and> length lines < maxLines then
        (if i = length msg \<or> charAt msg i = CHR 0x0A then
           layoutLoop maxChars maxLines msg (i + 1) (i + 1)
             (wrapSegment maxChars maxLines (substring msg lineStart i) lines)
         else layoutLoop maxChars maxLines msg (i + 1) lineStart lines)
      else lines)"
  by pat_completeness auto
termination
  by (relation "measure (\<lambda>(maxChars, maxLines, msg, i, lineStart, lines). Suc (length msg) - i)")
    auto

definition layoutLines :: "nat \<Rightarrow> nat \<Rightarrow> string \<Rightarrow> string list" where
  "layoutLines maxChars maxLines msg = layoutLoop maxChars maxLines msg 0 0 []"

text \<open>The second half of \<open>drawMessage\<close>: every entry of \<open>lines\<close> is cut to
  \<open>MAX_CHARS_PER_LINE\<close> once more and printed at a centred cursor position. The result
  is the list of \<open>(x, y, text)\<close> passed to \<open>setCursor\<close> and \<open>print\<close>. The divisions are
  C's (truncating).\<close>

fun printLines :: "string list \<Rightarrow> int \<Rightarrow> (int \<times> int \<times> string) list" where
  "printLines [] currentY = []"
| "printLines (l # ls) currentY =
     (let line = (if length l > MAX_CHARS_PER_LINE then substring l 0 MAX_CHARS_PER_LINE else l);
          lineWidth = int (length line) * 6;
          startX0 = (SCREEN_WIDTH - lineWidth) sdiv 2;
          startX = (if startX0 < 0 then 0 else startX0)
      in (startX, currentY + 11, line) # printLines ls (currentY + 11 + 2))"

definition drawMessage :: "string \<Rightarrow> (int \<times> int \<times> string) list" where
  "drawMessage displayMessage =
     (let lines = layoutLines MAX_CHARS_PER_LINE MAX_LINES displayMessage;
          numLines = int (length lines)
      in if numLines = 0 then []
         else
           (let totalHeight = (numLines * 11) + ((numLines - 1) * 2);
                startY0 = (SCREEN_HEIGHT - totalHeight) sdiv 2;
                startY = (if startY0 < 0 then 0 else startY0)
            in printLines lines startY))"

section \<open>Sparse canvas codec: \<open>parseCanvasData\<close>\<close>

text \<open>
  \<open>bool canvas[96][48]\<close> is a list of 96 columns of 48 cells. A store into the array is
  \<open>storeCell\<close>; a store at an index outside the array is the fault \<open>OutOfBounds\<close>, so that
  the model keeps apart the stores the code performs and the ones its range check
  refuses. The same fault stands for a read of \<open>cities[currentCity]\<close> outside the table.
\<close>

datatype fault = OutOfBounds

type_synonym grid = "bool list list"

definition GRID_W :: int where "GRID_W = 96"
definition GRID_H :: int where "GRID_H = 48"

text \<open>\<open>memset(targetCanvas, 0, 96 * 48 * sizeof(bool))\<close>: whatever the array held, all
  96 * 48 cells are false afterwards.\<close>

definition memsetCanvas :: "grid \<Rightarrow> grid" where
  "memsetCanvas targetCanvas = replicate 96 (replicate 48 False)"

definition storeCell :: "grid \<Rightarrow> int \<Rightarrow> int \<Rightarrow> fault + grid" where
  "storeCell g x y =
     (if 0 \<le> x \<and> x < int (length g) \<and> 0 \<le> y \<and> y < int (length (g ! nat x))
      then Inr (g[nat x := (g ! nat x)[nat y := True]])
      else Inl OutOfBounds)"

definition cellAt :: "grid \<Rightarrow> nat \<Rightarrow> nat \<Rightarrow> bool" where
  "cellAt g x y = (x < length g \<and> y < length (g ! x) \<and> g ! x ! y)"

lemma indexFrom_range:
  "indexFrom ch cs n = -1 \<or> (int n \<le> indexFrom ch cs n \<and> indexFrom ch cs n < int n + int (length cs))"
  by (induction ch cs n rule: indexFrom.induct) auto

lemma indexOf_range:
  "indexOf s ch i = -1 \<or> (int i \<le> indexOf s ch i \<and> indexOf s ch i < int (length s))"
  using indexFrom_range [of ch "drop i s" i] by (auto simp: indexOf_def)

text \<open>The \<open>while (i < canvasData.length())\<close> loop. The two \<open>break\<close>s and the end of the
  loop return the grid as it is.\<close>

function parseLoop :: "string \<Rightarrow> nat \<Rightarrow> grid \<Rightarrow> fault + grid" where
  "parseLoop canvasData i targetCanvas =
     (if i < length canvasData then
        (let comma = indexOf canvasData CHR '','' i;
             semi = indexOf canvasData CHR '';'' i
         in if comma < 0 then Inr targetCanvas
            else
              (let x = toInt (substring canvasData i (nat comma));
                   y = toInt (substring canvasData (nat comma + 1)
                          (if semi < 0 then length canvasData else nat semi))
               in case (if x \<ge> 0 \<and> x < GRID_W \<and> y \<ge> 0 \<and> y < GRID_H
                        then storeCell targetCanvas x y else Inr targetCanvas) of
                    Inl f \<Rightarrow> Inl f
                  | Inr g \<Rightarrow> if semi < 0 then Inr g else parseLoop canvasData (nat semi + 1) g))
      else Inr targetCanvas)"
  by pat_completeness auto
termination
proof (relation "measure (\<lambda>(canvasData, i, targetCanvas). length canvasData - i)", goal_cases)
  case 1
  show ?case by simp
next
  case (2 canvasData i targetCanvas comma semi x y g)
  then show ?case
    using indexOf_range [of canvasData "CHR '';''" i] by auto
qed

definition parseCanvasData :: "string \<Rightarrow> grid \<Rightarrow> fault + grid" where
  "parseCanvasData canvasData targetCanvas =
     (let cleared = memsetCanvas targetCanvas
      in if length canvasData = 0 then Inr cleared else parseLoop canvasData 0 cleared)"

text \<open>The coordinate pairs the loop reads, in order: the same loop without the range check
  and the store. It is used to say which cells a decoded grid has set.\<close>

function canvasPairs :: "string \<Rightarrow> nat \<Rightarrow> (int \<times> int) list" where
  "canvasPairs canvasData i =
     (if i < length canvasData then
        (let comma = indexOf canvasData CHR '','' i;
             semi = indexOf canvasData CHR '';'' i
         in if comma < 0 then []
            else
              (toInt (substring canvasData i (nat comma)),
               toInt (substring canvasData (nat comma + 1)
                        (if semi < 0 then length canvasData else nat semi)))
              # (if semi < 0 then [] else canvasPairs canvasData (nat semi + 1)))
      else [])"
  by pat_completeness auto
termination
proof (relation "measure (\<lambda>(canvasData, i). length canvasData - i)", goal_cases)
  case 1
  show ?case by simp
next
  case (2 canvasData i comma semi)
  then show ?case
    using indexOf_range [of canvasData "CHR '';''" i] by auto
qed

text \<open>The shape of a \<open>bool[96][48]\<close> array.\<close>

definition gridShape :: "grid \<Rightarrow> bool" where
  "gridShape g = (length g = 96 \<and> (\<forall>col \<in> set g. length col = 48))"

section \<open>Border animations\<close>

text \<open>
  Each animation function draws one frame and then advances its own counters, which are
  global \<open>int\<close> variables. The drawing calls do not touch the counters and are left out;
  what remains of each function is its counter update. \<open>%\<close> is C's remainder
  (\<open>smod\<close>, truncating). The counters are mathematical integers here: the invariants
  proved below keep them far inside the 32-bit range, so no update wraps.
\<close>

record animation =
  animationPos :: int
  pulseState :: int
  pulseDirection :: int
  cornerAngle :: int
  scanPos :: int
  breatheSize :: int
  breatheDir :: int

definition initialAnimation :: animation where
  "initialAnimation =
     \<lparr>animationPos = 0, pulseState = 0, pulseDirection = 1, cornerAngle = 0,
      scanPos = 0, breatheSize = 0, breatheDir = 1\<rparr>"

definition drawBorderChase :: "animation \<Rightarrow> animation" where
  "drawBorderChase a =
     (let perimeter = 2 * (SCREEN_WIDTH + SCREEN_HEIGHT)
      in a\<lparr>animationPos := (animationPos a + 4) smod perimeter\<rparr>)"

definition drawPulseBorder :: "animation \<Rightarrow> animation" where
  "drawPulseBorder a =
     (let a1 = a\<lparr>pulseState := pulseState a + pulseDirection a * 2\<rparr>
      in if pulseState a1 \<ge> 40 \<or> pulseState a1 \<le> 0
         then a1\<lparr>pulseDirection := pulseDirection a1 * (-1)\<rparr> else a1)"

definition drawCornerSpin :: "animation \<Rightarrow> animation" where
  "drawCornerSpin a = a\<lparr>cornerAngle := (cornerAngle a + 3) smod 80\<rparr>"

definition drawScanLine :: "animation \<Rightarrow> animation" where
  "drawScanLine a = a\<lparr>scanPos := (scanPos a + 2) smod SCREEN_HEIGHT\<rparr>"

definition drawBreathingBox :: "animation \<Rightarrow> animation" where
  "drawBreathingBox a =
     (let a1 = a\<lparr>breatheSize := breatheSize a + breatheDir a\<rparr>
      in if breatheSize a1 \<ge> 30 \<or> breatheSize a1 \<le> 0
         then a1\<lparr>breatheDir := breatheDir a1 * (-1)\<rparr> else a1)"

text \<open>The \<open>switch (currentAnimation)\<close> of \<open>loopOLED\<close>: one call per rendered frame;
  0 and every value without a case draw no border.\<close>

definition animate :: "int \<Rightarrow> animation \<Rightarrow> animation" where
  "animate currentAnimation a =
     (if currentAnimation = 1 then drawBorderChase a
      else if currentAnimation = 2 then drawPulseBorder a
      else if currentAnimation = 3 then drawCornerSpin a
      else if currentAnimation = 4 then drawScanLine a
      else if currentAnimation = 5 then drawBreathingBox a
      else a)"

text \<open>A run of frames, one selector value per frame.\<close>

definition frames :: "int list \<Rightarrow> animation \<Rightarrow> animation" where
  "frames sels a = foldl (\<lambda>s sel. animate sel s) a sels"

text \<open>Invariants of the counters: the ping-pong counters move inside their range in the
  direction of the direction variable, the wrapping counters stay below their modulus.\<close>

definition pulseInv :: "animation \<Rightarrow> bool" where
  "pulseInv a =
     (even (pulseState a) \<and>
      (pulseDirection a = 1 \<and> 0 \<le> pulseState a \<and> pulseState a < 40
       \<or> pulseDirection a = -1 \<and> 0 < pulseState a \<and> pulseState a \<le> 40))"

definition breatheInv :: "animation \<Rightarrow> bool" where
  "breatheInv a =
     (breatheDir a = 1 \<and> 0 \<le> breatheSize a \<and> breatheSize a < 30
      \<or> breatheDir a = -1 \<and> 0 < breatheSize a \<and> breatheSize a \<le> 30)"

definition wrapInv :: "animation \<Rightarrow> bool" where
  "wrapInv a =
     (0 \<le> animationPos a \<and> animationPos a < 2 * (128 + 64)
      \<and> 0 \<le> scanPos a \<and> scanPos a < 64
      \<and> 0 \<le> cornerAngle a \<and> cornerAngle a < 80)"

section \<open>HTTP responses and JSON documents\<close>

text \<open>
  The HTTP client and the JSON parser are libraries. A response is its status code and
  the outcome of \<open>deserializeJson\<close> on its payload: \<open>None\<close> when the parser reports an
  error, otherwise the members of the root object (a root that is not an object has no
  members). A \<open>JsonVariant\<close> is what the sketch can observe of it: \<open>isNull()\<close>,
  \<open>as<String>()\<close>, \<open>as<int>()\<close> and \<open>as<float>()\<close> (a real number here; rounding to
  \<open>float\<close> is not modelled). Looking up a member that the document does not have yields the
  null variant, whose conversions are the library's defaults: the text \<open>null\<close>, 0 and 0.
  The sketch itself compares the mode with \<open>"null"\<close> for this case.
\<close>

record jsonVariant =
  isNull :: bool
  asString :: string
  asInt :: int
  asFloat :: real

definition nullVariant :: jsonVariant where
  "nullVariant = \<lparr>isNull = True, asString = ''null'', asInt = 0, asFloat = 0\<rparr>"

type_synonym jsonDocument = "(string \<times> jsonVariant) list"

definition containsKey :: "jsonDocument \<Rightarrow> string \<Rightarrow> bool" where
  "containsKey doc k = (map_of doc k \<noteq> None)"

definition member :: "jsonDocument \<Rightarrow> string \<Rightarrow> jsonVariant" where
  "member doc k = (case map_of doc k of None \<Rightarrow> nullVariant | Some v \<Rightarrow> v)"

record httpResponse =
  httpCode :: int
  body :: "jsonDocument option"

definition HTTP_CODE_OK :: int where "HTTP_CODE_OK = 200"

text \<open>A response that the fetch functions do not use: the status is not 200, or the payload
  does not parse.\<close>

definition failedResponse :: "httpResponse \<Rightarrow> bool" where
  "failedResponse r = (httpCode r \<noteq> HTTP_CODE_OK \<or> body r = None)"

text \<open>The backend: the response to the \<open>n\<close>-th request of the device, for its URL. A
  timeout or a refused connection is a response with a negative status code, as
  \<open>HTTPClient::GET\<close> reports it.\<close>

type_synonym server = "nat \<Rightarrow> string \<Rightarrow> httpResponse"

section \<open>The device state\<close>

record city =
  name :: string
  query :: string
  tz :: string
  temp :: real
  humidity :: int

definition city0 :: "string \<Rightarrow> string \<Rightarrow> string \<Rightarrow> city" where
  "city0 n q z = \<lparr>name = n, query = q, tz = z, temp = 0, humidity = 0\<rparr>"

definition initialCities :: "city list" where
  "initialCities =
     [city0 ''Calicut'' ''Kozhikode,IN'' ''IST-5:30'',
      city0 ''Yelahanka'' ''Yelahanka,IN'' ''IST-5:30'',
      city0 ''Patna'' ''Patna,IN'' ''IST-5:30'',
      city0 ''Mumbai'' ''Mumbai,IN'' ''IST-5:30'',
      city0 ''Dubai'' ''Dubai,AE'' ''GST-4'',
      city0 ''Abu Dhabi'' ''Abu Dhabi,AE'' ''GST-4'',
      city0 ''Riyadh'' ''Riyadh,SA'' ''AST-3'',
      city0 ''Singapore'' ''Singapore,SG'' ''SGT-8'',
      city0 ''Tokyo'' ''Tokyo,JP'' ''JST-9'',
      city0 ''Beijing'' ''Beijing,CN'' ''CST-8'',
      city0 ''Seoul'' ''Seoul,KR'' ''KST-9'',
      city0 ''Bangkok'' ''Bangkok,TH'' ''ICT-7'',
      city0 ''Hong Kong'' ''Hong Kong,HK'' ''HKT-8'',
      city0 ''Istanbul'' ''Istanbul,TR'' ''TRT-3'',
      city0 ''Berlin'' ''Berlin,DE'' ''CET-1CEST,M3.5.0/2,M10.5.0/3'',
      city0 ''Stuttgart'' ''Stuttgart,DE'' ''CET-1CEST,M3.5.0/2,M10.5.0/3'',
      city0 ''London'' ''London,GB'' ''GMT0BST,M3.5.0/1,M10.5.0'',
      city0 ''Paris'' ''Paris,FR'' ''CET-1CEST,M3.5.0,M10.5.0/3'',
      city0 ''Madrid'' ''Madrid,ES'' ''CET-1CEST,M3.5.0,M10.5.0/3'',
      city0 ''Rome'' ''Rome,IT'' ''CET-1CEST,M3.5.0,M10.5.0/3'',
      city0 ''Amsterdam'' ''Amsterdam,NL'' ''CET-1CEST,M3.5.0,M10.5.0/3'',
      city0 ''Moscow'' ''Moscow,RU'' ''MSK-3'',
      city0 ''New York'' ''New York,US'' ''EST5EDT,M3.2.0,M11.1.0'',
      city0 ''San Francisco'' ''San Francisco,US'' ''PST8PDT,M3.2.0,M11.1.0'',
      city0 ''Chicago'' ''Chicago,US'' ''CST6CDT,M3.2.0,M11.1.0'',
      city0 ''Los Angeles'' ''Los Angeles,US'' ''PST8PDT,M3.2.0,M11.1.0'',
      city0 ''Toronto'' ''Toronto,CA'' ''EST5EDT,M3.2.0,M11.1.0'',
      city0 ''Vancouver'' ''Vancouver,CA'' ''PST8PDT,M3.2.0,M11.1.0'',
      city0 ''Mexico City'' ''Mexico City,MX'' ''CST6CDT,M4.1.0,M10.5.0'',
      city0 ''Sao Paulo'' ''Sao Paulo,BR'' ''BRT3BRST,M10.3.0/0,M2.3.0/0'',
      city0 ''Buenos Aires'' ''Buenos Aires,AR'' ''ART3'',
      city0 ''Lima'' ''Lima,PE'' ''PET5'',
      city0 ''Bogota'' ''Bogota,CO'' ''COT5'',
      city0 ''Cairo'' ''Cairo,EG'' ''EET-2'',
      city0 ''Lagos'' ''Lagos,NG'' ''WAT-1'',
      city0 ''Johannesburg'' ''Johannesburg,ZA'' ''SAST-2'',
      city0 ''Nairobi'' ''Nairobi,KE'' ''EAT-3'',
      city0 ''Sydney'' ''Sydney,AU'' ''AEST-10AEDT,M10.1.0,M4.1.0/3'',
      city0 ''Melbourne'' ''Melbourne,AU'' ''AEST-10AEDT,M10.1.0,M4.1.0/3'',
      city0 ''Auckland'' ''Auckland,NZ'' ''NZST-12NZDT,M9.5.0,M4.1.0/3'']"

definition NUM_CITIES :: int where "NUM_CITIES = 40"

text \<open>The global variables of the sketch. \<open>unsigned long\<close> is 32 bits wide on the ESP32.
  \<open>timezone\<close> is the \<open>TZ\<close> environment variable; \<open>httpLog\<close> is not a variable of the sketch:
  it records the URLs of the requests issued so far, in order.\<close>

record device =
  apiKey :: string
  userId :: string
  currentMode :: string
  lastMode :: string
  lastModeCheck :: "32 word"
  dataLoaded :: bool
  displayMessage :: string
  currentAnimation :: int
  counters :: animation
  lastOledFetch :: "32 word"
  canvas :: grid
  lastCanvasFetch :: "32 word"
  pixelPaintHasData :: bool
  imagePixelCanvas :: grid
  lastImagePixelFetch :: "32 word"
  imagePixelHasData :: bool
  cities :: "city list"
  currentCity :: int
  lastCity :: int
  lastWeatherSettingsFetch :: "32 word"
  lastWeatherFetch :: "32 word"
  weatherDataLoaded :: bool
  timezone :: string
  httpLog :: "string list"

definition initialDevice :: device where
  "initialDevice =
     \<lparr>apiKey = [], userId = [], currentMode = [], lastMode = [], lastModeCheck = 0,
      dataLoaded = False,
      displayMessage = ''ESP32'' @ [CHR 0x0A] @ ''Controller'',
      currentAnimation = 1, counters = initialAnimation, lastOledFetch = 0,
      canvas = replicate 96 (replicate 48 False), lastCanvasFetch = 0,
      pixelPaintHasData = False,
      imagePixelCanvas = replicate 96 (replicate 48 False), lastImagePixelFetch = 0,
      imagePixelHasData = False,
      cities = initialCities, currentCity = -1, lastCity = -1,
      lastWeatherSettingsFetch = 0, lastWeatherFetch = 0, weatherDataLoaded = False,
      timezone = [], httpLog = []\<rparr>"

definition MODE_CHECK_INTERVAL :: "32 word" where "MODE_CHECK_INTERVAL = 3000"
definition OLED_FETCH_INTERVAL :: "32 word" where "OLED_FETCH_INTERVAL = 5000"
definition CANVAS_FETCH_INTERVAL :: "32 word" where "CANVAS_FETCH_INTERVAL = 1000"
definition IMAGE_PIXEL_FETCH_INTERVAL :: "32 word" where "IMAGE_PIXEL_FETCH_INTERVAL = 1000"
definition WEATHER_SETTINGS_INTERVAL :: "32 word" where "WEATHER_SETTINGS_INTERVAL = 3000"
definition WEATHER_FETCH_INTERVAL :: "32 word" where "WEATHER_FETCH_INTERVAL = 60000"

definition API_BASE_URL :: string where
  "API_BASE_URL = ''https://us-central1-esp-web-2625a.cloudfunctions.net/api''"

text \<open>\<open>http.begin(url); http.GET()\<close> with the parsed payload.\<close>

definition httpGET :: "server \<Rightarrow> string \<Rightarrow> device \<Rightarrow> httpResponse \<times> device" where
  "httpGET srv url st = (srv (length (httpLog st)) url, st\<lparr>httpLog := httpLog st @ [url]\<rparr>)"

text \<open>Sequencing of steps that can fault.\<close>

definition andThen :: "fault + 'a \<Rightarrow> ('a \<Rightarrow> fault + 'b) \<Rightarrow> fault + 'b" where
  "andThen r f = (case r of Inl e \<Rightarrow> Inl e | Inr v \<Rightarrow> f v)"

section \<open>Fetch operations\<close>

text \<open>Each fetch function builds its URL, issues one GET and, on status 200 and a payload
  that parses, stores what it reads. Serial output and the display are not part of the
  state and are left out.\<close>

definition fetchUserData :: "server \<Rightarrow> device \<Rightarrow> bool \<times> device" where
  "fetchUserData srv st =
     (let url = API_BASE_URL @ ''/device?apiKey='' @ apiKey st;
          (resp, st1) = httpGET srv url st
      in if httpCode resp = HTTP_CODE_OK then
           (case body resp of
              Some doc \<Rightarrow>
                (True, st1\<lparr>userId := asString (member doc ''userId''),
                           currentMode := asString (member doc ''activeSketch'')\<rparr>)
            | None \<Rightarrow> (False, st1))
         else (False, st1))"

definition fetchOledSettings :: "server \<Rightarrow> device \<Rightarrow> device" where
  "fetchOledSettings srv st =
     (let url = API_BASE_URL @ ''/oled?apiKey='' @ apiKey st;
          (resp, st1) = httpGET srv url st
      in if httpCode resp = HTTP_CODE_OK then
           (case body resp of
              Some doc \<Rightarrow>
                st1\<lparr>displayMessage := asString (member doc ''message''),
                    currentAnimation := asInt (member doc ''animation'')\<rparr>
            | None \<Rightarrow> st1)
         else st1)"

definition fetchCanvas :: "server \<Rightarrow> device \<Rightarrow> fault + device" where
  "fetchCanvas srv st =
     (let url = API_BASE_URL @ ''/pixel-paint?apiKey='' @ apiKey st;
          (resp, st1) = httpGET srv url st
      in if httpCode resp = HTTP_CODE_OK then
           (case body resp of
              Some doc \<Rightarrow>
                (let canvasData = asString (member doc ''canvas'');
                     st2 = st1\<lparr>pixelPaintHasData := (length canvasData > 0)\<rparr>
                 in andThen (parseCanvasData canvasData (canvas st2))
                      (\<lambda>g. Inr (st2\<lparr>canvas := g\<rparr>)))
            | None \<Rightarrow> Inr st1)
         else Inr st1)"

definition fetchImagePixel :: "server \<Rightarrow> device \<Rightarrow> fault + device" where
  "fetchImagePixel srv st =
     (let url = API_BASE_URL @ ''/image-to-pixel?apiKey='' @ apiKey st;
          (resp, st1) = httpGET srv url st
      in if httpCode resp = HTTP_CODE_OK then
           (case body resp of
              Some doc \<Rightarrow>
                (let canvasData = asString (member doc ''canvas'');
                     st2 = st1\<lparr>imagePixelHasData := (length canvasData > 0)\<rparr>
                 in andThen (parseCanvasData canvasData (imagePixelCanvas st2))
                      (\<lambda>g. Inr (st2\<lparr>imagePixelCanvas := g\<rparr>)))
            | None \<Rightarrow> Inr st1)
         else Inr st1)"

definition fetchWeatherSettings :: "server \<Rightarrow> device \<Rightarrow> device" where
  "fetchWeatherSettings srv st =
     (let url = API_BASE_URL @ ''/weather?apiKey='' @ apiKey st;
          (resp, st1) = httpGET srv url st
      in if httpCode resp = HTTP_CODE_OK then
           (case body resp of
              Some doc \<Rightarrow>
                if containsKey doc ''selectedCity'' \<and> \<not> isNull (member doc ''selectedCity'') then
                  (let newCity = asInt (member doc ''selectedCity'')
                   in if newCity \<ge> 0 \<and> newCity < NUM_CITIES then
                        (if newCity \<noteq> currentCity st1
                         then st1\<lparr>currentCity := newCity, weatherDataLoaded := False\<rparr>
                         else st1)
                      else st1)
                else st1\<lparr>currentCity := -1\<rparr>
            | None \<Rightarrow> st1)
         else st1)"

text \<open>\<open>city.replace(" ", "%20")\<close>\<close>

definition replaceSpaces :: "string \<Rightarrow> string" where
  "replaceSpaces s = concat (map (\<lambda>c. if c = CHR 0x20 then ''%20'' else [c]) s)"

text \<open>A read of \<open>cities[currentCity]\<close>; outside the table it is a fault.\<close>

definition cityAt :: "device \<Rightarrow> fault + city" where
  "cityAt st =
     (if 0 \<le> currentCity st \<and> currentCity st < int (length (cities st))
      then Inr (cities st ! nat (currentCity st)) else Inl OutOfBounds)"

definition fetchWeather :: "server \<Rightarrow> device \<Rightarrow> fault + device" where
  "fetchWeather srv st =
     (if length (apiKey st) = 0 then Inr st
      else
        andThen (cityAt st) (\<lambda>c.
          let url = API_BASE_URL @ ''/weather-data?apiKey='' @ apiKey st @ ''&city=''
                      @ replaceSpaces (query c);
              (resp, st1) = httpGET srv url st
          in if httpCode resp = HTTP_CODE_OK then
               (case body resp of
                  Some doc \<Rightarrow>
                    Inr (st1\<lparr>cities := (cities st1)[nat (currentCity st1) :=
                           c\<lparr>temp := asFloat (member doc ''temp''),
                             humidity := asInt (member doc ''humidity'')\<rparr>]\<rparr>)
                | None \<Rightarrow> Inr st1)
             else Inr st1))"

definition applyTimezone :: "device \<Rightarrow> fault + device" where
  "applyTimezone st = andThen (cityAt st) (\<lambda>c. Inr (st\<lparr>timezone := tz c\<rparr>))"

section \<open>Mode controller\<close>

definition noMode :: "string \<Rightarrow> bool" where
  "noMode m = (m = [] \<or> m = ''null'' \<or> m = ''none'')"

definition initCurrentMode :: "server \<Rightarrow> device \<Rightarrow> fault + device" where
  "initCurrentMode srv st =
     (let st0 = st\<lparr>dataLoaded := False\<rparr>
      in if noMode (currentMode st0) then Inr st0
         else if currentMode st0 = ''oled'' then Inr (fetchOledSettings srv st0)
         else if currentMode st0 = ''pixel-paint'' then
           fetchCanvas srv (st0\<lparr>pixelPaintHasData := False\<rparr>)
         else if currentMode st0 = ''image-to-pixel'' then
           fetchImagePixel srv (st0\<lparr>imagePixelHasData := False\<rparr>)
         else if currentMode st0 = ''weather'' then
           (let st1 = fetchWeatherSettings srv (st0\<lparr>weatherDataLoaded := False\<rparr>)
            in if currentCity st1 \<ge> 0
               then andThen (applyTimezone st1) (fetchWeather srv)
               else Inr st1)
         else Inr st0)"

text \<open>
  What one pass of \<open>loop\<close> reads from outside the sketch: \<open>now\<close> is the \<open>millis()\<close> read at
  the top of \<open>loop\<close>, \<open>modeNow\<close> the one read at the top of the per-mode function,
  \<open>button\<close> what \<open>checkConfigButton\<close> observes on the configuration pin, \<open>wifiConnected\<close>
  whether \<open>WiFi.status()\<close> is \<open>WL_CONNECTED\<close>. A long press (over 3 seconds) opens the
  configuration portal; its argument is the API key field if the user saved the form
  (\<open>saveConfigCallback\<close> runs), \<open>None\<close> if the portal closed without a save.
\<close>

datatype button = Released | ShortPress | LongPress "string option"

record env =
  now :: "32 word"
  modeNow :: "32 word"
  button :: button
  wifiConnected :: bool
  server :: server

definition saveConfigCallback :: "string \<Rightarrow> device \<Rightarrow> device" where
  "saveConfigCallback v st = (if length v > 0 then st\<lparr>apiKey := v\<rparr> else st)"

definition checkConfigButton :: "env \<Rightarrow> device \<Rightarrow> fault + device" where
  "checkConfigButton e st =
     (case button e of
        Released \<Rightarrow> Inr st
      | ShortPress \<Rightarrow> Inr st
      | LongPress saved \<Rightarrow>
          (let st1 = (case saved of None \<Rightarrow> st | Some v \<Rightarrow> saveConfigCallback v st)
           in if length (apiKey st1) > 0
              then initCurrentMode (server e) (snd (fetchUserData (server e) st1))
              else Inr st1))"

definition loopOLED :: "env \<Rightarrow> device \<Rightarrow> device" where
  "loopOLED e st =
     (let st1 = (if modeNow e - lastOledFetch st > OLED_FETCH_INTERVAL
                 then (fetchOledSettings (server e) st)\<lparr>lastOledFetch := modeNow e\<rparr>
                 else st)
      in st1\<lparr>counters := animate (currentAnimation st1) (counters st1)\<rparr>)"

definition loopPixelPaint :: "env \<Rightarrow> device \<Rightarrow> fault + device" where
  "loopPixelPaint e st =
     (if modeNow e - lastCanvasFetch st > CANVAS_FETCH_INTERVAL
      then andThen (fetchCanvas (server e) st) (\<lambda>s. Inr (s\<lparr>lastCanvasFetch := modeNow e\<rparr>))
      else Inr st)"

definition loopImageToPixel :: "env \<Rightarrow> device \<Rightarrow> fault + device" where
  "loopImageToPixel e st =
     (if modeNow e - lastImagePixelFetch st > IMAGE_PIXEL_FETCH_INTERVAL
      then andThen (fetchImagePixel (server e) st)
             (\<lambda>s. Inr (s\<lparr>lastImagePixelFetch := modeNow e\<rparr>))
      else Inr st)"

definition loopWeather :: "env \<Rightarrow> device \<Rightarrow> fault + device" where
  "loopWeather e st =
     (let st1 = (if modeNow e - lastWeatherSettingsFetch st > WEATHER_SETTINGS_INTERVAL
                 then (fetchWeatherSettings (server e) st)\<lparr>lastWeatherSettingsFetch := modeNow e\<rparr>
                 else st)
      in if currentCity st1 < 0 then Inr st1
         else if modeNow e - lastWeatherFetch st1 > WEATHER_FETCH_INTERVAL
                 \<or> currentCity st1 \<noteq> lastCity st1 then
           andThen (if currentCity st1 \<noteq> lastCity st1
                    then andThen (applyTimezone st1) (\<lambda>s. Inr (s\<lparr>lastCity := currentCity s\<rparr>))
                    else Inr st1)
             (\<lambda>st2. andThen (fetchWeather (server e) st2)
                (\<lambda>s. Inr (s\<lparr>weatherDataLoaded := True, lastWeatherFetch := modeNow e\<rparr>)))
         else Inr st1)"

definition loop :: "env \<Rightarrow> device \<Rightarrow> fault + device" where
  "loop e st =
     andThen (checkConfigButton e st) (\<lambda>st1.
       if length (apiKey st1) = 0 then Inr st1
       else if \<not> wifiConnected e then Inr st1
       else
         (let st2 = (if now e - lastModeCheck st1 > MODE_CHECK_INTERVAL
                     then (snd (fetchUserData (server e) st1))\<lparr>lastModeCheck := now e\<rparr>
                     else st1)
          in andThen (if currentMode st2 \<noteq> lastMode st2
                      then andThen (initCurrentMode (server e) st2)
                             (\<lambda>s. Inr (s\<lparr>lastMode := currentMode s\<rparr>))
                      else Inr st2)
               (\<lambda>st3.
                  if noMode (currentMode st3) then Inr st3
                  else if currentMode st3 = ''oled'' then Inr (loopOLED e st3)
                  else if currentMode st3 = ''pixel-paint'' then loopPixelPaint e st3
                  else if currentMode st3 = ''image-to-pixel'' then loopImageToPixel e st3
                  else if currentMode st3 = ''weather'' then loopWeather e st3
                  else Inr st3)))"

text \<open>The sketch's \<open>setup()\<close> with a WiFi connection established: the API key read from
  the EEPROM (\<open>stored\<close>) is kept only if it starts with \<open>esp_\<close>; if the WiFi manager ran its
  portal and the user saved the form, \<open>portal\<close> is the API key field; with a key, the mode is
  fetched and entered.\<close>

definition setup_device :: "server \<Rightarrow> string \<Rightarrow> string option \<Rightarrow> fault + device" where
  "setup_device srv stored portal =
     (let st0 = initialDevice\<lparr>apiKey := (if take 4 stored \<noteq> ''esp_'' then [] else stored)\<rparr>;
          st = (case portal of None \<Rightarrow> st0 | Some v \<Rightarrow> saveConfigCallback v st0)
      in if length (apiKey st) > 0 then
           (let (ok, st1) = fetchUserData srv st
            in if ok then initCurrentMode srv st1 else Inr st1)
         else Inr st)"

text \<open>The life of the device: \<open>setup()\<close>, then \<open>loop()\<close> once per element of the list.\<close>

fun loops :: "env list \<Rightarrow> device \<Rightarrow> fault + device" where
  "loops [] st = Inr st"
| "loops (e # es) st = andThen (loop e st) (loops es)"

definition run :: "server \<Rightarrow> string \<Rightarrow> string option \<Rightarrow> env list \<Rightarrow> fault + device" where
  "run srv stored portal es = andThen (setup_device srv stored portal) (loops es)"

text \<open>The invariant of the weather state: the table has its 40 entries and the selected
  index is \<open>-1\<close> or an index into it.\<close>

definition cityInv :: "device \<Rightarrow> bool" where
  "cityInv st =
     (length (cities st) = 40 \<and> -1 \<le> currentCity st \<and> currentCity st < NUM_CITIES)"

text \<open>Inputs for the examples: a JSON string that is not a number, a backend that gives
  the same response to every request, a device that has loaded an API key and has done
  nothing else, and a pass of \<open>loop\<close> five seconds after start with the button released
  and WiFi connected; further down a document \<open>{"selectedCity": n}\<close> (with the text of
  \<open>n\<close>), a document with one string member, and a canvas with every cell painted.\<close>

definition jsonWord :: "string \<Rightarrow> jsonVariant" where
  "jsonWord s = \<lparr>isNull = False, asString = s, asInt = 0, asFloat = 0\<rparr>"

definition constantServer :: "httpResponse \<Rightarrow> server" where
  "constantServer r = (\<lambda>n url. r)"

definition keyedDevice :: device where
  "keyedDevice = initialDevice\<lparr>apiKey := ''esp_demo''\<rparr>"

definition pollEnv :: "server \<Rightarrow> env" where
  "pollEnv srv =
     \<lparr>now = 5000, modeNow = 5000, button = Released, wifiConnected = True, server = srv\<rparr>"

definition cityDoc :: "int \<Rightarrow> string \<Rightarrow> jsonDocument" where
  "cityDoc n txt =
     [(''selectedCity'', \<lparr>isNull = False, asString = txt, asInt = n, asFloat = of_int n\<rparr>)]"

definition modeDoc :: "string \<Rightarrow> string \<Rightarrow> jsonDocument" where
  "modeDoc k m = [(k, jsonWord m)]"

definition paintedGrid :: grid where
  "paintedGrid = replicate 96 (replicate 48 True)"

text \<open>A device in the middle of its life, with none of its variables at the initial value,
  a document that has every member the sketch reads, and a backend that answers one URL
  with a given response and every other URL with status 200 and that document.\<close>

definition busyDevice :: device where
  "busyDevice =
     keyedDevice\<lparr>userId := ''user-1'', currentMode := ''oled'', lastMode := ''oled'',
       lastModeCheck := 9000, dataLoaded := True,
       displayMessage := ''Hello'', currentAnimation := 3,
       counters := frames [2, 2, 5, 1, 3, 4] initialAnimation, lastOledFetch := 8000,
       canvas := paintedGrid, lastCanvasFetch := 7000, pixelPaintHasData := True,
       imagePixelCanvas := paintedGrid, lastImagePixelFetch := 6000,
       imagePixelHasData := True,
       cities := initialCities[7 := (initialCities ! 7)\<lparr>temp := 21, humidity := 40\<rparr>],
       currentCity := 7, lastCity := 7, lastWeatherSettingsFetch := 5000,
       lastWeatherFetch := 4000, weatherDataLoaded := True, timezone := ''SGT-8'',
       httpLog := [API_BASE_URL @ ''/device?apiKey=esp_demo'']\<rparr>"

definition fullDoc :: jsonDocument where
  "fullDoc =
     [(''userId'', jsonWord ''user-2''), (''activeSketch'', jsonWord ''weather''),
      (''message'', jsonWord ''Bye''),
      (''animation'', \<lparr>isNull = False, asString = ''5'', asInt = 5, asFloat = 5\<rparr>),
      (''canvas'', jsonWord ''1,1;''),
      (''selectedCity'', \<lparr>isNull = False, asString = ''3'', asInt = 3, asFloat = 3\<rparr>),
      (''temp'', \<lparr>isNull = False, asString = ''30'', asInt = 30, asFloat = 30\<rparr>),
      (''humidity'', \<lparr>isNull = False, asString = ''80'', asInt = 80, asFloat = 80\<rparr>)]"

definition failingOnly :: "string \<Rightarrow> httpResponse \<Rightarrow> server" where
  "failingOnly url r =
     (\<lambda>n u. if u = url then r else \<lparr>httpCode = HTTP_CODE_OK, body = Some fullDoc\<rparr>)"

text \<open>What a later state shares with an earlier one when only weather data moved: the
  mode variables are the same and the request log has grown at its end.\<close>

definition sameMode :: "device \<Rightarrow> device \<Rightarrow> bool" where
  "sameMode st st' =
     (currentMode st' = currentMode st \<and> lastMode st' = lastMode st
      \<and> take (length (httpLog st)) (httpLog st') = httpLog st)"

text \<open>No weather-settings request between two states: the log has grown at its end by
  requests other than the weather-settings one, and the API key and the time of the last
  periodic weather-settings fetch are the same.\<close>

definition weatherQuiet :: "device \<Rightarrow> device \<Rightarrow> bool" where
  "weatherQuiet st st' =
     (apiKey st' = apiKey st
      \<and> lastWeatherSettingsFetch st' = lastWeatherSettingsFetch st
      \<and> take (length (httpLog st)) (httpLog st') = httpLog st
      \<and> (API_BASE_URL @ ''/weather?apiKey='' @ apiKey st)
            \<notin> set (drop (length (httpLog st)) (httpLog st')))"

text \<open>A device that left weather mode a second ago: no mode is active, the mode poll is
  due at 5000 ms and the periodic weather-settings fetch is not.\<close>

definition idleDevice :: device where
  "idleDevice =
     keyedDevice\<lparr>currentMode := ''none'', lastMode := ''none'', lastModeCheck := 1000,
       lastWeatherSettingsFetch := 4000\<rparr>"

text \<open>A device right after \<open>setup()\<close> received the mode \<open>none\<close>: \<open>lastMode\<close> is still empty.\<close>

definition bootedDevice :: device where
  "bootedDevice = keyedDevice\<lparr>userId := ''user-1'', currentMode := ''none''\<rparr>"

text \<open>A backend that answers the mode query with \<open>{"activeSketch":"weather"}\<close> and refuses
  every other request.\<close>

definition weatherModeServer :: server where
  "weatherModeServer =
     (\<lambda>n u. if u = API_BASE_URL @ ''/device?apiKey=esp_demo''
            then \<lparr>httpCode = HTTP_CODE_OK, body = Some (modeDoc ''activeSketch'' ''weather'')\<rparr>
            else \<lparr>httpCode = -1, body = None\<rparr>)"

section \<open>Properties of the text layout\<close>

declare wrapSegment.simps [simp del] layoutLoop.simps [simp del] parseLoop.simps [simp del]
  canvasPairs.simps [simp del]

lemma findBreak_le: "findBreak s j d \<le> max j d"
  by (induction s j d rule: findBreak.induct) auto

lemma length_substring_le: "length (substring s 0 b) \<le> b"
  by (simp add: substring_def)

lemma wrapSegment_length:
  "length lines \<le> ml \<Longrightarrow> length (wrapSegment mc ml seg lines) \<le> ml"
proof (induction mc ml seg lines rule: wrapSegment.induct)
  case (1 mc ml seg lines)
  show ?case using 1 by (subst wrapSegment.simps) (auto simp: Let_def)
qed

lemma wrapSegment_width:
  "\<forall>l \<in> set lines. length l \<le> mc \<Longrightarrow> \<forall>l \<in> set (wrapSegment mc ml seg lines). length l \<le> mc"
proof (induction mc ml seg lines rule: wrapSegment.induct)
  case (1 mc ml seg lines)
  have fb: "length (substring seg 0 (findBreak seg mc mc)) \<le> mc"
    using length_substring_le [of seg "findBreak seg mc mc"] findBreak_le [of seg mc mc] by simp
  show ?case using 1 fb by (subst wrapSegment.simps) (auto simp: Let_def)
qed

lemma layoutLoop_length:
  "length lines \<le> ml \<Longrightarrow> length (layoutLoop mc ml msg i ls lines) \<le> ml"
proof (induction mc ml msg i ls lines rule: layoutLoop.induct)
  case (1 mc ml msg i ls lines)
  show ?case using 1 by (subst layoutLoop.simps) (auto simp: wrapSegment_length)
qed

lemma layoutLoop_width:
  "\<forall>l \<in> set lines. length l \<le> mc \<Longrightarrow> \<forall>l \<in> set (layoutLoop mc ml msg i ls lines). length l \<le> mc"
proof (induction mc ml msg i ls lines rule: layoutLoop.induct)
  case (1 mc ml msg i ls lines)
  show ?case using 1 wrapSegment_width[of lines mc ml "substring msg ls i"] by (subst layoutLoop.simps) (auto)
qed

lemma printLines_length: "length (printLines ls y) = length ls"
  by (induction ls y rule: printLines.induct) (auto simp: Let_def)

lemma printLines_width: "(x, y, t) \<in> set (printLines ls y0) \<Longrightarrow> length t \<le> MAX_CHARS_PER_LINE"
  by (induction ls y0 rule: printLines.induct) (auto simp: Let_def substring_def split: if_splits)

lemma printLines_text: "\<forall>l \<in> set ls. length l \<le> MAX_CHARS_PER_LINE \<Longrightarrow> map (\<lambda>(x, y, t). t) (printLines ls y0) = ls"
  by (induction ls y0 rule: printLines.induct) (auto simp: Let_def)

text \<open>
  Claim C2. For every message, the wrapping loop of \<open>drawMessage\<close> fills at most
  \<open>MAX_LINES\<close> = 5 entries of \<open>lines\<close> and every entry has at most
  \<open>MAX_CHARS_PER_LINE\<close> = 19 characters; \<open>drawMessage\<close> prints exactly these entries, so at
  most 5 lines of at most 19 characters each.
\<close>

theorem drawMessage_line_bounds:
  "length (layoutLines MAX_CHARS_PER_LINE MAX_LINES msg) \<le> 5
   \<and> (\<forall>l \<in> set (layoutLines MAX_CHARS_PER_LINE MAX_LINES msg). length l \<le> 19)
   \<and> length (drawMessage msg) \<le> 5
   \<and> (\<forall>(x, y, t) \<in> set (drawMessage msg). length t \<le> 19)
   \<and> map (\<lambda>(x, y, t). t) (drawMessage msg) = layoutLines MAX_CHARS_PER_LINE MAX_LINES msg"
proof -
  let ?ls = "layoutLines MAX_CHARS_PER_LINE MAX_LINES msg"
  have n: "length ?ls \<le> MAX_LINES"
    unfolding layoutLines_def by (rule layoutLoop_length) simp
  have w: "\<forall>l \<in> set ?ls. length l \<le> MAX_CHARS_PER_LINE"
    unfolding layoutLines_def by (rule layoutLoop_width) simp
  have d: "drawMessage msg = [] \<and> ?ls = [] \<or> (\<exists>y0. drawMessage msg = printLines ?ls y0)"
    by (auto simp: drawMessage_def Let_def)
  have "length (drawMessage msg) \<le> MAX_LINES"
    using d n by (auto simp: printLines_length)
  moreover have "\<forall>(x, y, t) \<in> set (drawMessage msg). length t \<le> MAX_CHARS_PER_LINE"
    using d by (auto dest: printLines_width)
  moreover have "map (\<lambda>(x, y, t). t) (drawMessage msg) = ?ls"
    using d w by (auto simp: printLines_text)
  ultimately show ?thesis using n w by (simp add: MAX_LINES_def MAX_CHARS_PER_LINE_def)
qed

text \<open>
  The theorem at a message of 111 characters: five lines are laid out, the rest is
  dropped.
\<close>

theorem drawMessage_line_bounds_witness:
  "layoutLines MAX_CHARS_PER_LINE MAX_LINES
      ''The quick brown fox jumps over the lazy dog and keeps running through the forest until night falls over the hills''
     = [''The quick brown fox'', ''jumps over the lazy'', ''dog and keeps'', ''running through the'',
        ''forest until night'']
   \<and> map (\<lambda>(x, y, t). t) (drawMessage
      ''The quick brown fox jumps over the lazy dog and keeps running through the forest until night falls over the hills'')
     = [''The quick brown fox'', ''jumps over the lazy'', ''dog and keeps'', ''running through the'',
        ''forest until night'']
   \<and> length (drawMessage
      ''The quick brown fox jumps over the lazy dog and keeps running through the forest until night falls over the hills'') = 5
   \<and> length ''running through the'' = 19"
proof -
  let ?m = "''The quick brown fox jumps over the lazy dog and keeps running through the forest until night falls over the hills''"
  have e: "layoutLines MAX_CHARS_PER_LINE MAX_LINES ?m
     = [''The quick brown fox'', ''jumps over the lazy'', ''dog and keeps'', ''running through the'',
        ''forest until night'']"
    by code_simp
  have t: "map (\<lambda>(x, y, t). t) (drawMessage ?m)
     = [''The quick brown fox'', ''jumps over the lazy'', ''dog and keeps'', ''running through the'',
        ''forest until night'']"
    using drawMessage_line_bounds [of ?m] e by simp
  then have "length (map (\<lambda>(x, y, t). t) (drawMessage ?m)) = 5"
    by simp
  then have n: "length (drawMessage ?m) = 5" by simp
  show ?thesis using e t n by simp
qed

text \<open>
  Claim C5. The wrapping loop run at a column limit of 10 on \<open>Hello World Foo\<close> breaks at
  the space at index 5 (the last one at or before index 10), drops it, and yields the two
  lines \<open>Hello\<close> and \<open>World Foo\<close>.
\<close>

theorem layout_hello_world_foo:
  "layoutLines 10 MAX_LINES ''Hello World Foo'' = [''Hello'', ''World Foo'']"
  by code_simp

section \<open>Properties of the canvas codec\<close>

lemma gridShape_memset: "gridShape (memsetCanvas t)"
  by (simp add: gridShape_def memsetCanvas_def)

lemma cellAt_memset: "\<not> cellAt (memsetCanvas t) x y"
  by (auto simp: cellAt_def memsetCanvas_def)

lemma storeCell_ok:
  assumes "gridShape g" "0 \<le> x" "x < GRID_W" "0 \<le> y" "y < GRID_H"
  shows "\<exists>g'. storeCell g x y = Inr g' \<and> gridShape g'
           \<and> (\<forall>a b. cellAt g' a b = (cellAt g a b \<or> (a = nat x \<and> b = nat y)))"
proof -
  from assms have lx: "nat x < length g" and ly: "nat y < length (g ! nat x)"
    by (auto simp: gridShape_def GRID_W_def GRID_H_def)
  let ?g' = "g[nat x := (g ! nat x)[nat y := True]]"
  from assms lx ly have s: "storeCell g x y = Inr ?g'"
    by (simp add: storeCell_def nat_less_iff)
  have sh: "gridShape ?g'"
    using assms(1) lx by (auto simp: gridShape_def dest!: set_update_subset_insert [THEN subsetD])
  have c: "cellAt ?g' a b = (cellAt g a b \<or> (a = nat x \<and> b = nat y))" for a b
    using lx ly by (auto simp: cellAt_def nth_list_update)
  show ?thesis using s sh c by blast
qed

lemma parseLoop_cells:
  "gridShape g \<Longrightarrow>
   \<exists>g'. parseLoop s i g = Inr g' \<and> gridShape g'
     \<and> (\<forall>a b. cellAt g' a b =
          (cellAt g a b \<or> ((int a, int b) \<in> set (canvasPairs s i) \<and> a < 96 \<and> b < 48)))"
proof (induction s i g rule: parseLoop.induct)
  case (1 s i g)
  show ?case
  proof (cases "i < length s \<and> \<not> indexOf s CHR '','' i < 0")
    case False
    then show ?thesis using 1(2)
      by (subst parseLoop.simps, subst canvasPairs.simps) (auto simp: Let_def)
  next
    case True
    define comma where "comma = indexOf s CHR '','' i"
    define semi where "semi = indexOf s CHR '';'' i"
    define x where "x = toInt (substring s i (nat comma))"
    define y where "y = toInt (substring s (nat comma + 1) (if semi < 0 then length s else nat semi))"
    define inr where "inr = (x \<ge> 0 \<and> x < GRID_W \<and> y \<ge> 0 \<and> y < GRID_H)"
    define r where "r = (if inr then storeCell g x y else Inr g)"
    have "\<exists>g1. r = Inr g1 \<and> gridShape g1
           \<and> (\<forall>a b. cellAt g1 a b = (cellAt g a b \<or> ((int a, int b) = (x, y) \<and> a < 96 \<and> b < 48)))"
    proof (cases inr)
      case True
      then obtain g1 where g1: "storeCell g x y = Inr g1" "gridShape g1"
         "\<forall>a b. cellAt g1 a b = (cellAt g a b \<or> (a = nat x \<and> b = nat y))"
        using storeCell_ok [of g x y] 1(2) by (auto simp: inr_def)
      from True have "(a = nat x \<and> b = nat y) = ((int a, int b) = (x, y) \<and> a < 96 \<and> b < 48)" for a b
        by (auto simp: inr_def GRID_W_def GRID_H_def)
      with g1 True show ?thesis by (simp add: r_def)
    next
      case False
      then have "\<not> ((int a, int b) = (x, y) \<and> a < 96 \<and> b < 48)" for a b
        by (auto simp: inr_def GRID_W_def GRID_H_def)
      with False 1(2) show ?thesis by (auto simp: r_def)
    qed
    then obtain g1 where g1: "r = Inr g1" "gridShape g1"
      "\<forall>a b. cellAt g1 a b = (cellAt g a b \<or> ((int a, int b) = (x, y) \<and> a < 96 \<and> b < 48))"
      by blast
    have r: "(if toInt (substring s i (nat (indexOf s CHR '','' i))) \<ge> 0
                 \<and> toInt (substring s i (nat (indexOf s CHR '','' i))) < GRID_W
                 \<and> toInt (substring s (nat (indexOf s CHR '','' i) + 1)
                      (if indexOf s CHR '';'' i < 0 then length s else nat (indexOf s CHR '';'' i))) \<ge> 0
                 \<and> toInt (substring s (nat (indexOf s CHR '','' i) + 1)
                      (if indexOf s CHR '';'' i < 0 then length s else nat (indexOf s CHR '';'' i))) < GRID_H
              then storeCell g (toInt (substring s i (nat (indexOf s CHR '','' i))))
                     (toInt (substring s (nat (indexOf s CHR '','' i) + 1)
                      (if indexOf s CHR '';'' i < 0 then length s else nat (indexOf s CHR '';'' i))))
              else Inr g) = Inr g1"
      using g1(1) unfolding r_def inr_def x_def y_def comma_def semi_def .
    have pl: "parseLoop s i g = (if semi < 0 then Inr g1 else parseLoop s (nat semi + 1) g1)"
      unfolding semi_def
      by (subst parseLoop.simps) (simp only: Let_def True r if_True if_False sum.case)
    have cp: "canvasPairs s i = (x, y) # (if semi < 0 then [] else canvasPairs s (nat semi + 1))"
      unfolding semi_def x_def y_def comma_def
      by (subst canvasPairs.simps) (simp only: Let_def True if_True if_False)
    show ?thesis
    proof (cases "semi < 0")
      case True
      then show ?thesis using pl cp g1 by auto
    next
      case False
      have "\<exists>g'. parseLoop s (nat semi + 1) g1 = Inr g' \<and> gridShape g'
        \<and> (\<forall>a b. cellAt g' a b =
          (cellAt g1 a b \<or> ((int a, int b) \<in> set (canvasPairs s (nat semi + 1)) \<and> a < 96 \<and> b < 48)))"
        using True False g1(1,2)
        by (intro 1(1) [where x = comma and xa = semi and xb = x and xc = y and b = g1])
           (auto simp: comma_def semi_def x_def y_def r_def inr_def)
      then show ?thesis using pl cp g1(3) False by auto
    qed
  qed
qed

text \<open>
  Claim C3. For every input string and every prior content of the target array,
  \<open>parseCanvasData\<close> returns a grid (the loop terminates and no store falls outside the
  array), the grid is 96 by 48, and its set cells are exactly the pairs read from the input
  that lie in \<open>[0,96) \<times> [0,48)\<close>: a pair outside that range sets no cell. The empty input
  yields the all-false grid.
\<close>

theorem parseCanvasData_total_in_bounds:
  "(\<exists>g. parseCanvasData canvasData targetCanvas = Inr g \<and> gridShape g
        \<and> (\<forall>x y. cellAt g x y
              = ((int x, int y) \<in> set (canvasPairs canvasData 0) \<and> x < 96 \<and> y < 48)))
   \<and> parseCanvasData [] targetCanvas = Inr (replicate 96 (replicate 48 False))"
proof -
  obtain g where g: "parseLoop canvasData 0 (memsetCanvas targetCanvas) = Inr g" "gridShape g"
    "\<forall>a b. cellAt g a b = (cellAt (memsetCanvas targetCanvas) a b
        \<or> ((int a, int b) \<in> set (canvasPairs canvasData 0) \<and> a < 96 \<and> b < 48))"
    using parseLoop_cells [OF gridShape_memset, of canvasData 0 targetCanvas] by blast
  have empty: "canvasPairs [] 0 = []" by (subst canvasPairs.simps) simp
  have a: "\<exists>g. parseCanvasData canvasData targetCanvas = Inr g \<and> gridShape g
        \<and> (\<forall>x y. cellAt g x y
              = ((int x, int y) \<in> set (canvasPairs canvasData 0) \<and> x < 96 \<and> y < 48))"
  proof (cases "canvasData = []")
    case True
    then show ?thesis
      by (simp add: parseCanvasData_def Let_def gridShape_memset cellAt_memset empty)
  next
    case False
    then show ?thesis using g
      by (simp add: parseCanvasData_def Let_def cellAt_memset)
  qed
  have b: "parseCanvasData [] targetCanvas = Inr (replicate 96 (replicate 48 False))"
    by (simp add: parseCanvasData_def memsetCanvas_def)
  show ?thesis using a b by blast
qed

text \<open>
  The theorem at an input with two pairs left of and right of the range, a number too
  large for \<open>long\<close>, one pair in range and a trailing token without a comma.
\<close>

theorem parseCanvasData_total_in_bounds_witness:
  "canvasPairs ''100,2;-1,3;1,99999999999;95,47;x'' 0
     = [(100, 2), (-1, 3), (1, 2147483647), (95, 47)]
   \<and> (\<exists>g. parseCanvasData ''100,2;-1,3;1,99999999999;95,47;x'' paintedGrid = Inr g
         \<and> length g = 96 \<and> (\<forall>col \<in> set g. length col = 48)
         \<and> cellAt g 95 47 \<and> \<not> cellAt g 1 2 \<and> \<not> cellAt g 100 2)"
proof -
  have e: "canvasPairs ''100,2;-1,3;1,99999999999;95,47;x'' 0
     = [(100, 2), (-1, 3), (1, 2147483647), (95, 47)]"
    by code_simp
  show ?thesis
    using parseCanvasData_total_in_bounds [of "''100,2;-1,3;1,99999999999;95,47;x''" paintedGrid] e
    by (auto simp: gridShape_def)
qed

text \<open>
  Claim C4. Whatever the target array held before, decoding \<open>2,3;5,5;\<close> yields the 96 by
  48 grid in which the cells (2,3) and (5,5) are set and no other cell is.
\<close>

theorem decode_example_replaces_grid:
  "\<exists>g. parseCanvasData ''2,3;5,5;'' prior = Inr g \<and> gridShape g
       \<and> (\<forall>x y. cellAt g x y = ((x = 2 \<and> y = 3) \<or> (x = 5 \<and> y = 5)))"
proof -
  have e: "canvasPairs ''2,3;5,5;'' 0 = [(2, 3), (5, 5)]"
    by code_simp
  obtain g where g: "parseLoop ''2,3;5,5;'' 0 (memsetCanvas prior) = Inr g" "gridShape g"
    "\<forall>a b. cellAt g a b = (cellAt (memsetCanvas prior) a b
        \<or> ((int a, int b) \<in> set (canvasPairs ''2,3;5,5;'' 0) \<and> a < 96 \<and> b < 48))"
    using parseLoop_cells [OF gridShape_memset, of "''2,3;5,5;''" 0 prior] by blast
  have "cellAt g x y = ((x = 2 \<and> y = 3) \<or> (x = 5 \<and> y = 5))" for x y
    using g(3) e by (auto simp: cellAt_memset)
  then show ?thesis using g(1,2)
    by (simp add: parseCanvasData_def Let_def)
qed

text \<open>
  The theorem at a target array with every cell painted before the call.
\<close>

theorem decode_example_replaces_grid_witness:
  "parseCanvasData ''2,3;5,5;'' paintedGrid
     = Inr ((replicate 96 (replicate 48 False))
              [2 := (replicate 48 False)[3 := True], 5 := (replicate 48 False)[5 := True]])
   \<and> (\<exists>g. parseCanvasData ''2,3;5,5;'' paintedGrid = Inr g
         \<and> length g = 96 \<and> (\<forall>col \<in> set g. length col = 48)
         \<and> cellAt g 2 3 \<and> cellAt g 5 5 \<and> \<not> cellAt g 0 0 \<and> \<not> cellAt g 3 2
         \<and> \<not> cellAt g 95 47)"
proof -
  have e: "parseCanvasData ''2,3;5,5;'' paintedGrid
     = Inr ((replicate 96 (replicate 48 False))
              [2 := (replicate 48 False)[3 := True], 5 := (replicate 48 False)[5 := True]])"
    by code_simp
  have "\<exists>g. parseCanvasData ''2,3;5,5;'' paintedGrid = Inr g
         \<and> length g = 96 \<and> (\<forall>col \<in> set g. length col = 48)
         \<and> cellAt g 2 3 \<and> cellAt g 5 5 \<and> \<not> cellAt g 0 0 \<and> \<not> cellAt g 3 2
         \<and> \<not> cellAt g 95 47"
    using decode_example_replaces_grid [of paintedGrid]
    by (auto simp: gridShape_def)
  then show ?thesis using e by blast
qed

section \<open>Properties of the animation counters\<close>

lemma smod_nonneg: "0 \<le> a \<Longrightarrow> 0 < b \<Longrightarrow> a smod b = a mod (b::int)"
  by (simp add: signed_modulo_int_def sgn_if)

lemma animate_pulseInv: "pulseInv a \<Longrightarrow> pulseInv (animate sel a)"
  by (auto simp: pulseInv_def animate_def drawBorderChase_def drawPulseBorder_def
        drawCornerSpin_def drawScanLine_def drawBreathingBox_def Let_def)

lemma animate_breatheInv: "breatheInv a \<Longrightarrow> breatheInv (animate sel a)"
  by (auto simp: breatheInv_def animate_def drawBorderChase_def drawPulseBorder_def
        drawCornerSpin_def drawScanLine_def drawBreathingBox_def Let_def)

lemma animate_wrapInv: "wrapInv a \<Longrightarrow> wrapInv (animate sel a)"
  by (auto simp: wrapInv_def animate_def drawBorderChase_def drawPulseBorder_def
        drawCornerSpin_def drawScanLine_def drawBreathingBox_def Let_def smod_nonneg
        SCREEN_WIDTH_def SCREEN_HEIGHT_def)

lemma frames_inv:
  "pulseInv a \<and> breatheInv a \<and> wrapInv a \<Longrightarrow>
   pulseInv (frames sels a) \<and> breatheInv (frames sels a) \<and> wrapInv (frames sels a)"
  unfolding frames_def
  by (induction sels arbitrary: a) (auto simp: animate_pulseInv animate_breatheInv animate_wrapInv)

lemma initial_inv: "pulseInv initialAnimation \<and> breatheInv initialAnimation \<and> wrapInv initialAnimation"
  by (simp add: pulseInv_def breatheInv_def wrapInv_def initialAnimation_def)

lemma pulse_flip:
  "pulseInv a \<Longrightarrow>
   (pulseDirection (drawPulseBorder a) = - pulseDirection a)
     = (pulseState (drawPulseBorder a) \<ge> 40 \<or> pulseState (drawPulseBorder a) \<le> 0)
   \<and> (pulseDirection (drawPulseBorder a) = pulseDirection a)
     = (0 < pulseState (drawPulseBorder a) \<and> pulseState (drawPulseBorder a) < 40)"
  by (auto simp: pulseInv_def drawPulseBorder_def Let_def)

lemma breathe_flip:
  "breatheInv a \<Longrightarrow>
   (breatheDir (drawBreathingBox a) = - breatheDir a)
     = (breatheSize (drawBreathingBox a) \<ge> 30 \<or> breatheSize (drawBreathingBox a) \<le> 0)
   \<and> (breatheDir (drawBreathingBox a) = breatheDir a)
     = (0 < breatheSize (drawBreathingBox a) \<and> breatheSize (drawBreathingBox a) < 30)"
  by (auto simp: breatheInv_def drawBreathingBox_def Let_def)

lemma other_steps_keep_direction:
  "sel \<noteq> 2 \<Longrightarrow> pulseDirection (animate sel a) = pulseDirection a \<and> pulseState (animate sel a) = pulseState a"
  "sel \<noteq> 5 \<Longrightarrow> breatheDir (animate sel a) = breatheDir a \<and> breatheSize (animate sel a) = breatheSize a"
  by (auto simp: animate_def drawBorderChase_def drawPulseBorder_def
        drawCornerSpin_def drawScanLine_def drawBreathingBox_def Let_def)

text \<open>
  Claim C6. After every sequence of frames from the initial counters, whatever animation
  each frame selects, \<open>pulseState\<close> is in \<open>[0,40]\<close> and \<open>breatheSize\<close> in \<open>[0,30]\<close>, both
  direction variables are 1 or -1, and the next call of \<open>drawPulseBorder\<close>
  (\<open>drawBreathingBox\<close>) negates its direction variable exactly when the counter it
  produces is at or beyond a bound, and leaves it as it is exactly when the counter is
  strictly inside; a frame of any other animation leaves the direction as it is.
\<close>

theorem pulse_breathe_bounds:
  "0 \<le> pulseState (frames sels initialAnimation) \<and> pulseState (frames sels initialAnimation) \<le> 40
   \<and> 0 \<le> breatheSize (frames sels initialAnimation) \<and> breatheSize (frames sels initialAnimation) \<le> 30
   \<and> (pulseDirection (frames sels initialAnimation) = 1 \<or> pulseDirection (frames sels initialAnimation) = -1)
   \<and> (breatheDir (frames sels initialAnimation) = 1 \<or> breatheDir (frames sels initialAnimation) = -1)
   \<and> ((pulseDirection (drawPulseBorder (frames sels initialAnimation))
          = - pulseDirection (frames sels initialAnimation))
        = (pulseState (drawPulseBorder (frames sels initialAnimation)) \<ge> 40
           \<or> pulseState (drawPulseBorder (frames sels initialAnimation)) \<le> 0))
   \<and> ((pulseDirection (drawPulseBorder (frames sels initialAnimation))
          = pulseDirection (frames sels initialAnimation))
        = (0 < pulseState (drawPulseBorder (frames sels initialAnimation))
           \<and> pulseState (drawPulseBorder (frames sels initialAnimation)) < 40))
   \<and> ((breatheDir (drawBreathingBox (frames sels initialAnimation))
          = - breatheDir (frames sels initialAnimation))
        = (breatheSize (drawBreathingBox (frames sels initialAnimation)) \<ge> 30
           \<or> breatheSize (drawBreathingBox (frames sels initialAnimation)) \<le> 0))
   \<and> ((breatheDir (drawBreathingBox (frames sels initialAnimation))
          = breatheDir (frames sels initialAnimation))
        = (0 < breatheSize (drawBreathingBox (frames sels initialAnimation))
           \<and> breatheSize (drawBreathingBox (frames sels initialAnimation)) < 30))
   \<and> (sel \<noteq> 2 \<longrightarrow> pulseDirection (animate sel (frames sels initialAnimation))
          = pulseDirection (frames sels initialAnimation))
   \<and> (sel \<noteq> 5 \<longrightarrow> breatheDir (animate sel (frames sels initialAnimation))
          = breatheDir (frames sels initialAnimation))"
proof -
  let ?a = "frames sels initialAnimation"
  have inv: "pulseInv ?a" "breatheInv ?a"
    using frames_inv [OF initial_inv, of sels] by simp_all
  have b: "0 \<le> pulseState ?a \<and> pulseState ?a \<le> 40
           \<and> (pulseDirection ?a = 1 \<or> pulseDirection ?a = -1)"
    using inv(1) by (auto simp: pulseInv_def)
  have c: "0 \<le> breatheSize ?a \<and> breatheSize ?a \<le> 30
           \<and> (breatheDir ?a = 1 \<or> breatheDir ?a = -1)"
    using inv(2) by (auto simp: breatheInv_def)
  show ?thesis
    using b c pulse_flip [OF inv(1)] breathe_flip [OF inv(2)]
      other_steps_keep_direction [of sel ?a]
    by simp
qed

text \<open>
  The theorem after 19 frames of the pulse border: the counter stands at 38, the next
  frame reaches 40 and turns the direction, a frame of the border chase does not.
\<close>

theorem pulse_breathe_bounds_witness:
  "(1::int) \<noteq> 2 \<and> (1::int) \<noteq> 5
   \<and> pulseState (frames [2, 2, 2, 2, 2, 2, 2, 2, 2, 2, 2, 2, 2, 2, 2, 2, 2, 2, 2] initialAnimation) = 38
   \<and> pulseDirection (frames [2, 2, 2, 2, 2, 2, 2, 2, 2, 2, 2, 2, 2, 2, 2, 2, 2, 2, 2] initialAnimation) = 1
   \<and> pulseState (drawPulseBorder
        (frames [2, 2, 2, 2, 2, 2, 2, 2, 2, 2, 2, 2, 2, 2, 2, 2, 2, 2, 2] initialAnimation)) = 40
   \<and> pulseDirection (drawPulseBorder
        (frames [2, 2, 2, 2, 2, 2, 2, 2, 2, 2, 2, 2, 2, 2, 2, 2, 2, 2, 2] initialAnimation)) = -1
   \<and> pulseDirection (animate 1
        (frames [2, 2, 2, 2, 2, 2, 2, 2, 2, 2, 2, 2, 2, 2, 2, 2, 2, 2, 2] initialAnimation)) = 1
   \<and> breatheDir (animate 1
        (frames [2, 2, 2, 2, 2, 2, 2, 2, 2, 2, 2, 2, 2, 2, 2, 2, 2, 2, 2] initialAnimation)) = 1"
proof -
  let ?a = "frames [2, 2, 2, 2, 2, 2, 2, 2, 2, 2, 2, 2, 2, 2, 2, 2, 2, 2, 2] initialAnimation"
  have e: "pulseState ?a = 38" "pulseDirection ?a = 1" "breatheDir ?a = 1"
    by (simp_all add: frames_def animate_def drawPulseBorder_def initialAnimation_def Let_def)
  have s: "pulseState (drawPulseBorder ?a) = 40"
    using e by (simp add: drawPulseBorder_def Let_def)
  show ?thesis
    using pulse_breathe_bounds [of "[2, 2, 2, 2, 2, 2, 2, 2, 2, 2, 2, 2, 2, 2, 2, 2, 2, 2, 2]" 1] e s
    by simp
qed

text \<open>
  Claim C10. After every sequence of frames from the initial counters, \<open>animationPos\<close> is
  in \<open>[0, 2 * (128 + 64))\<close>, \<open>scanPos\<close> in \<open>[0, 64)\<close> and \<open>cornerAngle\<close> in \<open>[0, 80)\<close>.
\<close>

theorem wrap_counters_in_range:
  "0 \<le> animationPos (frames sels initialAnimation)
   \<and> animationPos (frames sels initialAnimation) < 2 * (128 + 64)
   \<and> 0 \<le> scanPos (frames sels initialAnimation)
   \<and> scanPos (frames sels initialAnimation) < 64
   \<and> 0 \<le> cornerAngle (frames sels initialAnimation)
   \<and> cornerAngle (frames sels initialAnimation) < 80"
  using frames_inv [OF initial_inv, of sels] by (simp add: wrapInv_def)

text \<open>
  The theorem after seven frames of mixed animations.
\<close>

theorem wrap_counters_in_range_witness:
  "animationPos (frames [1, 4, 3, 1, 5, 2, 4] initialAnimation) = 8
   \<and> scanPos (frames [1, 4, 3, 1, 5, 2, 4] initialAnimation) = 4
   \<and> cornerAngle (frames [1, 4, 3, 1, 5, 2, 4] initialAnimation) = 3
   \<and> animationPos (frames [1, 4, 3, 1, 5, 2, 4] initialAnimation) < 2 * (128 + 64)
   \<and> scanPos (frames [1, 4, 3, 1, 5, 2, 4] initialAnimation) < 64
   \<and> cornerAngle (frames [1, 4, 3, 1, 5, 2, 4] initialAnimation) < 80"
proof -
  have e: "animationPos (frames [1, 4, 3, 1, 5, 2, 4] initialAnimation) = 8"
    "scanPos (frames [1, 4, 3, 1, 5, 2, 4] initialAnimation) = 4"
    "cornerAngle (frames [1, 4, 3, 1, 5, 2, 4] initialAnimation) = 3"
    by (simp_all add: frames_def animate_def drawBorderChase_def drawPulseBorder_def
          drawCornerSpin_def drawScanLine_def drawBreathingBox_def initialAnimation_def Let_def
          SCREEN_WIDTH_def SCREEN_HEIGHT_def signed_modulo_int_def)
  show ?thesis using wrap_counters_in_range [of "[1, 4, 3, 1, 5, 2, 4]"] e by simp
qed

section \<open>Properties of the fetch operations\<close>

lemma parseCanvasData_Inr: "\<exists>g. parseCanvasData s t = Inr g"
  using parseLoop_cells [OF gridShape_memset, of s 0 t]
  by (auto simp: parseCanvasData_def Let_def)

lemma andThen_Inr [simp]: "andThen (Inr v) f = f v"
  by (simp add: andThen_def)

lemma andThen_Inl [simp]: "andThen (Inl e) f = Inl e"
  by (simp add: andThen_def)

lemma fetchUserData_cityInv: "cityInv (snd (fetchUserData srv st)) = cityInv st"
  by (simp add: fetchUserData_def httpGET_def cityInv_def Let_def split: option.splits)

lemma fetchOledSettings_cityInv: "cityInv (fetchOledSettings srv st) = cityInv st"
  by (simp add: fetchOledSettings_def httpGET_def cityInv_def Let_def split: option.splits)

lemma fetchCanvas_cityInv:
  "cityInv st \<Longrightarrow> \<exists>st'. fetchCanvas srv st = Inr st' \<and> cityInv st'"
proof -
  assume inv: "cityInv st"
  show ?thesis
  proof (cases "httpCode (srv (length (httpLog st)) (API_BASE_URL @ ''/pixel-paint?apiKey='' @ apiKey st)) = HTTP_CODE_OK")
    case False
    then show ?thesis using inv
      by (simp add: fetchCanvas_def httpGET_def cityInv_def Let_def)
  next
    case ok: True
    show ?thesis
    proof (cases "body (srv (length (httpLog st)) (API_BASE_URL @ ''/pixel-paint?apiKey='' @ apiKey st))")
      case None
      then show ?thesis using inv ok
        by (simp add: fetchCanvas_def httpGET_def cityInv_def Let_def)
    next
      case (Some doc)
      obtain g where "parseCanvasData (asString (member doc ''canvas'')) (canvas st) = Inr g"
        using parseCanvasData_Inr by blast
      then show ?thesis using inv ok Some
        by (simp add: fetchCanvas_def httpGET_def cityInv_def Let_def)
    qed
  qed
qed

lemma fetchImagePixel_cityInv:
  "cityInv st \<Longrightarrow> \<exists>st'. fetchImagePixel srv st = Inr st' \<and> cityInv st'"
proof -
  assume inv: "cityInv st"
  show ?thesis
  proof (cases "httpCode (srv (length (httpLog st)) (API_BASE_URL @ ''/image-to-pixel?apiKey='' @ apiKey st)) = HTTP_CODE_OK")
    case False
    then show ?thesis using inv
      by (simp add: fetchImagePixel_def httpGET_def cityInv_def Let_def)
  next
    case ok: True
    show ?thesis
    proof (cases "body (srv (length (httpLog st)) (API_BASE_URL @ ''/image-to-pixel?apiKey='' @ apiKey st))")
      case None
      then show ?thesis using inv ok
        by (simp add: fetchImagePixel_def httpGET_def cityInv_def Let_def)
    next
      case (Some doc)
      obtain g where "parseCanvasData (asString (member doc ''canvas'')) (imagePixelCanvas st) = Inr g"
        using parseCanvasData_Inr by blast
      then show ?thesis using inv ok Some
        by (simp add: fetchImagePixel_def httpGET_def cityInv_def Let_def)
    qed
  qed
qed

lemma fetchWeatherSettings_cityInv:
  "cityInv st \<Longrightarrow> cityInv (fetchWeatherSettings srv st)"
  by (simp add: fetchWeatherSettings_def httpGET_def cityInv_def Let_def NUM_CITIES_def
        split: option.splits)

lemma applyTimezone_cityInv:
  "cityInv st \<Longrightarrow> 0 \<le> currentCity st \<Longrightarrow>
   \<exists>st'. applyTimezone st = Inr st' \<and> cityInv st' \<and> currentCity st' = currentCity st"
  by (simp add: applyTimezone_def cityAt_def cityInv_def NUM_CITIES_def)

lemma fetchWeather_cityInv:
  "cityInv st \<Longrightarrow> 0 \<le> currentCity st \<Longrightarrow>
   \<exists>st'. fetchWeather srv st = Inr st' \<and> cityInv st'"
  by (simp add: fetchWeather_def cityAt_def cityInv_def NUM_CITIES_def httpGET_def Let_def
        split: option.splits)

lemma initCurrentMode_cityInv:
  "cityInv st \<Longrightarrow> \<exists>st'. initCurrentMode srv st = Inr st' \<and> cityInv st'"
proof -
  assume inv: "cityInv st"
  let ?st0 = "st\<lparr>dataLoaded := False\<rparr>"
  have i0: "cityInv ?st0" using inv by (simp add: cityInv_def)
  have ipp: "cityInv (?st0\<lparr>pixelPaintHasData := False\<rparr>)" using inv by (simp add: cityInv_def)
  have iip: "cityInv (?st0\<lparr>imagePixelHasData := False\<rparr>)" using inv by (simp add: cityInv_def)
  have iw: "cityInv (?st0\<lparr>weatherDataLoaded := False\<rparr>)" using inv by (simp add: cityInv_def)
  let ?st1 = "fetchWeatherSettings srv (?st0\<lparr>weatherDataLoaded := False\<rparr>)"
  have i1: "cityInv ?st1" using iw by (rule fetchWeatherSettings_cityInv)
  have w: "\<exists>st'. (if currentCity ?st1 \<ge> 0 then andThen (applyTimezone ?st1) (fetchWeather srv)
                   else Inr ?st1) = Inr st' \<and> cityInv st'"
  proof (cases "currentCity ?st1 \<ge> 0")
    case True
    then obtain st2 where s2: "applyTimezone ?st1 = Inr st2" "cityInv st2" "currentCity st2 = currentCity ?st1"
      using applyTimezone_cityInv [OF i1] by blast
    with True fetchWeather_cityInv [of st2 srv] show ?thesis by simp
  next
    case False
    then show ?thesis using i1 by simp
  qed
  show ?thesis
    unfolding initCurrentMode_def Let_def
    using i0 fetchOledSettings_cityInv [of srv ?st0] fetchCanvas_cityInv [OF ipp, of srv]
      fetchImagePixel_cityInv [OF iip, of srv] w
    by (simp del: One_nat_def)
qed

text \<open>
  Claim C1 as stated fails for a payload that lacks an expected field: a weather-settings
  response with status 200 and the payload \<open>{}\<close> moves the selected city from 5 to -1.
\<close>

theorem fetchWeatherSettings_missing_field_counterexample:
  "currentCity (keyedDevice\<lparr>currentCity := 5\<rparr>) = 5
   \<and> currentCity (fetchWeatherSettings (constantServer \<lparr>httpCode = 200, body = Some []\<rparr>)
        (keyedDevice\<lparr>currentCity := 5\<rparr>)) = -1
   \<and> fetchWeatherSettings (constantServer \<lparr>httpCode = 200, body = Some []\<rparr>)
        (keyedDevice\<lparr>currentCity := 5\<rparr>)
       \<noteq> (keyedDevice\<lparr>currentCity := 5\<rparr>)\<lparr>httpLog := [API_BASE_URL @ ''/weather?apiKey=esp_demo'']\<rparr>"
  by (simp add: fetchWeatherSettings_def httpGET_def constantServer_def HTTP_CODE_OK_def
        keyedDevice_def initialDevice_def containsKey_def Let_def)

text \<open>
  Claim C1, amended. For each fetch (mode query, OLED settings, pixel-paint canvas,
  image-to-pixel canvas, weather settings, weather data): if the response to its own
  request has a status other than 200 or a payload that does not parse, the fetch leaves
  every variable of the device as it was, whatever the backend would answer to any other
  request; only the request log grows by the URL of the request. A weather-settings
  payload that parses and has no \<open>selectedCity\<close> sets the selected city index to -1.
\<close>

theorem fetch_failure_keeps_state:
  "(failedResponse (srv (length (httpLog st)) (API_BASE_URL @ ''/device?apiKey='' @ apiKey st)) \<longrightarrow>
      fetchUserData srv st
        = (False, st\<lparr>httpLog := httpLog st @ [API_BASE_URL @ ''/device?apiKey='' @ apiKey st]\<rparr>))
   \<and> (failedResponse (srv (length (httpLog st)) (API_BASE_URL @ ''/oled?apiKey='' @ apiKey st)) \<longrightarrow>
      fetchOledSettings srv st
        = st\<lparr>httpLog := httpLog st @ [API_BASE_URL @ ''/oled?apiKey='' @ apiKey st]\<rparr>)
   \<and> (failedResponse (srv (length (httpLog st))
          (API_BASE_URL @ ''/pixel-paint?apiKey='' @ apiKey st)) \<longrightarrow>
      fetchCanvas srv st
        = Inr (st\<lparr>httpLog := httpLog st @ [API_BASE_URL @ ''/pixel-paint?apiKey='' @ apiKey st]\<rparr>))
   \<and> (failedResponse (srv (length (httpLog st))
          (API_BASE_URL @ ''/image-to-pixel?apiKey='' @ apiKey st)) \<longrightarrow>
      fetchImagePixel srv st
        = Inr (st\<lparr>httpLog := httpLog st
                 @ [API_BASE_URL @ ''/image-to-pixel?apiKey='' @ apiKey st]\<rparr>))
   \<and> (failedResponse (srv (length (httpLog st)) (API_BASE_URL @ ''/weather?apiKey='' @ apiKey st)) \<longrightarrow>
      fetchWeatherSettings srv st
        = st\<lparr>httpLog := httpLog st @ [API_BASE_URL @ ''/weather?apiKey='' @ apiKey st]\<rparr>)
   \<and> (apiKey st \<noteq> [] \<and> cityAt st = Inr c
        \<and> failedResponse (srv (length (httpLog st))
             (API_BASE_URL @ ''/weather-data?apiKey='' @ apiKey st @ ''&city=''
                @ replaceSpaces (query c))) \<longrightarrow>
      fetchWeather srv st
        = Inr (st\<lparr>httpLog := httpLog st
                 @ [API_BASE_URL @ ''/weather-data?apiKey='' @ apiKey st @ ''&city=''
                      @ replaceSpaces (query c)]\<rparr>))
   \<and> (httpCode (srv (length (httpLog st)) (API_BASE_URL @ ''/weather?apiKey='' @ apiKey st))
          = HTTP_CODE_OK
        \<and> body (srv (length (httpLog st)) (API_BASE_URL @ ''/weather?apiKey='' @ apiKey st))
          = Some doc
        \<and> \<not> containsKey doc ''selectedCity'' \<longrightarrow>
      currentCity (fetchWeatherSettings srv st) = -1)"
proof -
  have a: "fetchUserData srv st
        = (False, st\<lparr>httpLog := httpLog st @ [API_BASE_URL @ ''/device?apiKey='' @ apiKey st]\<rparr>)"
    if "failedResponse (srv (length (httpLog st)) (API_BASE_URL @ ''/device?apiKey='' @ apiKey st))"
    using that by (auto simp: failedResponse_def fetchUserData_def httpGET_def Let_def)
  have b: "fetchOledSettings srv st
        = st\<lparr>httpLog := httpLog st @ [API_BASE_URL @ ''/oled?apiKey='' @ apiKey st]\<rparr>"
    if "failedResponse (srv (length (httpLog st)) (API_BASE_URL @ ''/oled?apiKey='' @ apiKey st))"
    using that by (auto simp: failedResponse_def fetchOledSettings_def httpGET_def Let_def)
  have c: "fetchCanvas srv st
        = Inr (st\<lparr>httpLog := httpLog st @ [API_BASE_URL @ ''/pixel-paint?apiKey='' @ apiKey st]\<rparr>)"
    if "failedResponse (srv (length (httpLog st))
          (API_BASE_URL @ ''/pixel-paint?apiKey='' @ apiKey st))"
    using that by (auto simp: failedResponse_def fetchCanvas_def httpGET_def Let_def)
  have d: "fetchImagePixel srv st
        = Inr (st\<lparr>httpLog := httpLog st
                 @ [API_BASE_URL @ ''/image-to-pixel?apiKey='' @ apiKey st]\<rparr>)"
    if "failedResponse (srv (length (httpLog st))
          (API_BASE_URL @ ''/image-to-pixel?apiKey='' @ apiKey st))"
    using that by (auto simp: failedResponse_def fetchImagePixel_def httpGET_def Let_def)
  have e: "fetchWeatherSettings srv st
        = st\<lparr>httpLog := httpLog st @ [API_BASE_URL @ ''/weather?apiKey='' @ apiKey st]\<rparr>"
    if "failedResponse (srv (length (httpLog st)) (API_BASE_URL @ ''/weather?apiKey='' @ apiKey st))"
    using that by (auto simp: failedResponse_def fetchWeatherSettings_def httpGET_def Let_def)
  have w: "fetchWeather srv st
        = Inr (st\<lparr>httpLog := httpLog st
                 @ [API_BASE_URL @ ''/weather-data?apiKey='' @ apiKey st @ ''&city=''
                      @ replaceSpaces (query c)]\<rparr>)"
    if "apiKey st \<noteq> []" "cityAt st = Inr c"
       "failedResponse (srv (length (httpLog st))
             (API_BASE_URL @ ''/weather-data?apiKey='' @ apiKey st @ ''&city=''
                @ replaceSpaces (query c)))"
    using that by (auto simp: failedResponse_def fetchWeather_def httpGET_def Let_def)
  have f: "currentCity (fetchWeatherSettings srv st) = -1"
    if "httpCode (srv (length (httpLog st)) (API_BASE_URL @ ''/weather?apiKey='' @ apiKey st))
          = HTTP_CODE_OK"
      "body (srv (length (httpLog st)) (API_BASE_URL @ ''/weather?apiKey='' @ apiKey st))
          = Some doc"
      "\<not> containsKey doc ''selectedCity''"
    using that by (simp add: fetchWeatherSettings_def httpGET_def Let_def)
  show ?thesis using a b c d e w f by blast
qed

lemma busyDevice_fields:
  "apiKey busyDevice = ''esp_demo''"
  "httpLog busyDevice = [API_BASE_URL @ ''/device?apiKey=esp_demo'']"
  "currentCity busyDevice = 7"
  "displayMessage busyDevice = ''Hello''"
  "cityAt busyDevice
     = Inr \<lparr>name = ''Singapore'', query = ''Singapore,SG'', tz = ''SGT-8'', temp = 21,
            humidity = 40\<rparr>"
  by (simp_all add: busyDevice_def keyedDevice_def initialDevice_def cityAt_def
        initialCities_def city0_def)

text \<open>
  The theorem at a device with every variable away from its initial value (city 7
  selected, message \<open>Hello\<close>) and, for each fetch, a backend that fails only the request of
  that fetch, by a refused connection, a server error or a payload that does not parse,
  and would answer every other request with new data; the same backend without the
  failure does replace the message. Then at the payload \<open>{}\<close> for the weather settings.
\<close>

theorem fetch_failure_keeps_state_witness:
  "fetchUserData (failingOnly (API_BASE_URL @ ''/device?apiKey=esp_demo'')
        \<lparr>httpCode = 500, body = None\<rparr>) busyDevice
     = (False, busyDevice\<lparr>httpLog := [API_BASE_URL @ ''/device?apiKey=esp_demo'',
                                        API_BASE_URL @ ''/device?apiKey=esp_demo'']\<rparr>)
   \<and> fetchOledSettings (failingOnly (API_BASE_URL @ ''/oled?apiKey=esp_demo'')
        \<lparr>httpCode = 200, body = None\<rparr>) busyDevice
     = busyDevice\<lparr>httpLog := [API_BASE_URL @ ''/device?apiKey=esp_demo'',
                                API_BASE_URL @ ''/oled?apiKey=esp_demo'']\<rparr>
   \<and> displayMessage (fetchOledSettings (failingOnly (API_BASE_URL @ ''/oled?apiKey=esp_demo'')
        \<lparr>httpCode = 200, body = None\<rparr>) busyDevice) = ''Hello''
   \<and> displayMessage (fetchOledSettings (failingOnly []
        \<lparr>httpCode = 200, body = None\<rparr>) busyDevice) = ''Bye''
   \<and> fetchCanvas (failingOnly (API_BASE_URL @ ''/pixel-paint?apiKey=esp_demo'')
        \<lparr>httpCode = -1, body = None\<rparr>) busyDevice
     = Inr (busyDevice\<lparr>httpLog := [API_BASE_URL @ ''/device?apiKey=esp_demo'',
                                     API_BASE_URL @ ''/pixel-paint?apiKey=esp_demo'']\<rparr>)
   \<and> fetchImagePixel (failingOnly (API_BASE_URL @ ''/image-to-pixel?apiKey=esp_demo'')
        \<lparr>httpCode = 404, body = Some fullDoc\<rparr>) busyDevice
     = Inr (busyDevice\<lparr>httpLog := [API_BASE_URL @ ''/device?apiKey=esp_demo'',
                                     API_BASE_URL @ ''/image-to-pixel?apiKey=esp_demo'']\<rparr>)
   \<and> fetchWeatherSettings (failingOnly (API_BASE_URL @ ''/weather?apiKey=esp_demo'')
        \<lparr>httpCode = 503, body = Some fullDoc\<rparr>) busyDevice
     = busyDevice\<lparr>httpLog := [API_BASE_URL @ ''/device?apiKey=esp_demo'',
                                API_BASE_URL @ ''/weather?apiKey=esp_demo'']\<rparr>
   \<and> fetchWeather (failingOnly
        (API_BASE_URL @ ''/weather-data?apiKey=esp_demo&city=Singapore,SG'')
        \<lparr>httpCode = 200, body = None\<rparr>) busyDevice
     = Inr (busyDevice\<lparr>httpLog := [API_BASE_URL @ ''/device?apiKey=esp_demo'',
           API_BASE_URL @ ''/weather-data?apiKey=esp_demo&city=Singapore,SG'']\<rparr>)
   \<and> currentCity busyDevice = 7
   \<and> currentCity (fetchWeatherSettings (failingOnly (API_BASE_URL @ ''/weather?apiKey=esp_demo'')
        \<lparr>httpCode = 200, body = Some []\<rparr>) busyDevice) = -1"
proof -
  let ?dev = "API_BASE_URL @ ''/device?apiKey=esp_demo''"
  let ?wd = "\<lparr>name = ''Singapore'', query = ''Singapore,SG'', tz = ''SGT-8'', temp = 21,
            humidity = 40\<rparr>"
  note f = busyDevice_fields
  have a: "fetchUserData (failingOnly ?dev \<lparr>httpCode = 500, body = None\<rparr>) busyDevice
     = (False, busyDevice\<lparr>httpLog := [?dev, ?dev]\<rparr>)"
    using fetch_failure_keeps_state
      [of "failingOnly ?dev \<lparr>httpCode = 500, body = None\<rparr>" busyDevice]
    by (simp add: f failingOnly_def failedResponse_def)
  have b: "fetchOledSettings (failingOnly (API_BASE_URL @ ''/oled?apiKey=esp_demo'')
        \<lparr>httpCode = 200, body = None\<rparr>) busyDevice
     = busyDevice\<lparr>httpLog := [?dev, API_BASE_URL @ ''/oled?apiKey=esp_demo'']\<rparr>"
    using fetch_failure_keeps_state
      [of "failingOnly (API_BASE_URL @ ''/oled?apiKey=esp_demo'')
             \<lparr>httpCode = 200, body = None\<rparr>" busyDevice]
    by (simp add: f failingOnly_def failedResponse_def)
  have b2: "displayMessage (fetchOledSettings (failingOnly []
        \<lparr>httpCode = 200, body = None\<rparr>) busyDevice) = ''Bye''"
    by (simp add: f fetchOledSettings_def httpGET_def failingOnly_def API_BASE_URL_def Let_def
          fullDoc_def member_def jsonWord_def)
  have c: "fetchCanvas (failingOnly (API_BASE_URL @ ''/pixel-paint?apiKey=esp_demo'')
        \<lparr>httpCode = -1, body = None\<rparr>) busyDevice
     = Inr (busyDevice\<lparr>httpLog := [?dev, API_BASE_URL @ ''/pixel-paint?apiKey=esp_demo'']\<rparr>)"
    using fetch_failure_keeps_state
      [of "failingOnly (API_BASE_URL @ ''/pixel-paint?apiKey=esp_demo'')
             \<lparr>httpCode = -1, body = None\<rparr>" busyDevice]
    by (simp add: f failingOnly_def failedResponse_def)
  have d: "fetchImagePixel (failingOnly (API_BASE_URL @ ''/image-to-pixel?apiKey=esp_demo'')
        \<lparr>httpCode = 404, body = Some fullDoc\<rparr>) busyDevice
     = Inr (busyDevice\<lparr>httpLog := [?dev, API_BASE_URL @ ''/image-to-pixel?apiKey=esp_demo'']\<rparr>)"
    using fetch_failure_keeps_state
      [of "failingOnly (API_BASE_URL @ ''/image-to-pixel?apiKey=esp_demo'')
             \<lparr>httpCode = 404, body = Some fullDoc\<rparr>" busyDevice]
    by (simp add: f failingOnly_def failedResponse_def HTTP_CODE_OK_def)
  have e: "fetchWeatherSettings (failingOnly (API_BASE_URL @ ''/weather?apiKey=esp_demo'')
        \<lparr>httpCode = 503, body = Some fullDoc\<rparr>) busyDevice
     = busyDevice\<lparr>httpLog := [?dev, API_BASE_URL @ ''/weather?apiKey=esp_demo'']\<rparr>"
    using fetch_failure_keeps_state
      [of "failingOnly (API_BASE_URL @ ''/weather?apiKey=esp_demo'')
             \<lparr>httpCode = 503, body = Some fullDoc\<rparr>" busyDevice]
    by (simp add: f failingOnly_def failedResponse_def HTTP_CODE_OK_def)
  have w: "fetchWeather (failingOnly
        (API_BASE_URL @ ''/weather-data?apiKey=esp_demo&city=Singapore,SG'')
        \<lparr>httpCode = 200, body = None\<rparr>) busyDevice
     = Inr (busyDevice\<lparr>httpLog := [?dev,
           API_BASE_URL @ ''/weather-data?apiKey=esp_demo&city=Singapore,SG'']\<rparr>)"
    using fetch_failure_keeps_state
      [of "failingOnly (API_BASE_URL @ ''/weather-data?apiKey=esp_demo&city=Singapore,SG'')
             \<lparr>httpCode = 200, body = None\<rparr>" busyDevice ?wd]
    by (simp add: f failingOnly_def failedResponse_def replaceSpaces_def)
  have g: "currentCity (fetchWeatherSettings (failingOnly (API_BASE_URL @ ''/weather?apiKey=esp_demo'')
        \<lparr>httpCode = 200, body = Some []\<rparr>) busyDevice) = -1"
    using fetch_failure_keeps_state
      [of "failingOnly (API_BASE_URL @ ''/weather?apiKey=esp_demo'')
             \<lparr>httpCode = 200, body = Some []\<rparr>" busyDevice _ "[]"]
    by (simp add: f failingOnly_def HTTP_CODE_OK_def containsKey_def)
  show ?thesis using a b b2 c d e w g f(3,4) by simp
qed

section \<open>The selected city\<close>

lemma loopOLED_cityInv: "cityInv (loopOLED e st) = cityInv st"
  using fetchOledSettings_cityInv [of "server e" st]
  by (simp add: loopOLED_def Let_def cityInv_def)

lemma loopPixelPaint_cityInv:
  "cityInv st \<Longrightarrow> \<exists>st'. loopPixelPaint e st = Inr st' \<and> cityInv st'"
  using fetchCanvas_cityInv [of st "server e"]
  by (auto simp: loopPixelPaint_def cityInv_def)

lemma loopImageToPixel_cityInv:
  "cityInv st \<Longrightarrow> \<exists>st'. loopImageToPixel e st = Inr st' \<and> cityInv st'"
  using fetchImagePixel_cityInv [of st "server e"]
  by (auto simp: loopImageToPixel_def cityInv_def)

lemma loopWeather_cityInv:
  assumes inv: "cityInv st"
  shows "\<exists>st'. loopWeather e st = Inr st' \<and> cityInv st'"
proof -
  define st1 where "st1 = (if modeNow e - lastWeatherSettingsFetch st > WEATHER_SETTINGS_INTERVAL
                 then (fetchWeatherSettings (server e) st)\<lparr>lastWeatherSettingsFetch := modeNow e\<rparr>
                 else st)"
  have i1: "cityInv st1"
    using inv fetchWeatherSettings_cityInv [OF inv, of "server e"]
    by (simp add: st1_def cityInv_def)
  show ?thesis
  proof (cases "currentCity st1 < 0")
    case True
    then show ?thesis using i1 by (simp add: loopWeather_def Let_def st1_def [symmetric])
  next
    case nonneg: False
    show ?thesis
    proof (cases "modeNow e - lastWeatherFetch st1 > WEATHER_FETCH_INTERVAL
                  \<or> currentCity st1 \<noteq> lastCity st1")
      case False
      then show ?thesis using i1 nonneg by (simp add: loopWeather_def Let_def st1_def [symmetric])
    next
      case due: True
      have "\<exists>st2. (if currentCity st1 \<noteq> lastCity st1
                    then andThen (applyTimezone st1) (\<lambda>s. Inr (s\<lparr>lastCity := currentCity s\<rparr>))
                    else Inr st1) = Inr st2 \<and> cityInv st2 \<and> 0 \<le> currentCity st2"
      proof (cases "currentCity st1 \<noteq> lastCity st1")
        case True
        obtain s where s: "applyTimezone st1 = Inr s" "cityInv s" "currentCity s = currentCity st1"
          using applyTimezone_cityInv [OF i1] nonneg by auto
        then have "cityInv (s\<lparr>lastCity := currentCity s\<rparr>)" by (simp add: cityInv_def)
        with True s nonneg show ?thesis by simp
      next
        case False
        then show ?thesis using i1 nonneg by simp
      qed
      then obtain st2 where s2: "(if currentCity st1 \<noteq> lastCity st1
                    then andThen (applyTimezone st1) (\<lambda>s. Inr (s\<lparr>lastCity := currentCity s\<rparr>))
                    else Inr st1) = Inr st2" "cityInv st2" "0 \<le> currentCity st2"
        by blast
      obtain s3 where s3: "fetchWeather (server e) st2 = Inr s3" "cityInv s3"
        using fetchWeather_cityInv [OF s2(2,3)] by blast
      then have "cityInv (s3\<lparr>weatherDataLoaded := True, lastWeatherFetch := modeNow e\<rparr>)"
        by (simp add: cityInv_def)
      then show ?thesis using nonneg due s2(1) s3(1)
        by (simp add: loopWeather_def Let_def st1_def [symmetric] del: One_nat_def)
    qed
  qed
qed

lemma saveConfigCallback_cityInv: "cityInv (saveConfigCallback v st) = cityInv st"
  by (simp add: saveConfigCallback_def cityInv_def)

lemma checkConfigButton_cityInv:
  assumes inv: "cityInv st"
  shows "\<exists>st'. checkConfigButton e st = Inr st' \<and> cityInv st'"
proof (cases "button e")
  case Released
  then show ?thesis using inv by (simp add: checkConfigButton_def)
next
  case ShortPress
  then show ?thesis using inv by (simp add: checkConfigButton_def)
next
  case (LongPress saved)
  define st1 where "st1 = (case saved of None \<Rightarrow> st | Some v \<Rightarrow> saveConfigCallback v st)"
  have i1: "cityInv st1"
    using inv by (simp add: st1_def saveConfigCallback_cityInv split: option.splits)
  have "cityInv (snd (fetchUserData (server e) st1))"
    using i1 by (simp add: fetchUserData_cityInv)
  then have "\<exists>st'. initCurrentMode (server e) (snd (fetchUserData (server e) st1)) = Inr st' \<and> cityInv st'"
    by (rule initCurrentMode_cityInv)
  then show ?thesis using LongPress i1
    by (simp add: checkConfigButton_def Let_def st1_def [symmetric])
qed

lemma loop_cityInv:
  assumes inv: "cityInv st"
  shows "\<exists>st'. loop e st = Inr st' \<and> cityInv st'"
proof -
  obtain st1 where s1: "checkConfigButton e st = Inr st1" "cityInv st1"
    using checkConfigButton_cityInv [OF inv] by blast
  define st2 where "st2 = (if now e - lastModeCheck st1 > MODE_CHECK_INTERVAL
                     then (snd (fetchUserData (server e) st1))\<lparr>lastModeCheck := now e\<rparr>
                     else st1)"
  have i2: "cityInv st2"
    using s1(2) fetchUserData_cityInv [of "server e" st1] by (simp add: st2_def cityInv_def)
  have "\<exists>st3. (if currentMode st2 \<noteq> lastMode st2
                      then andThen (initCurrentMode (server e) st2)
                             (\<lambda>s. Inr (s\<lparr>lastMode := currentMode s\<rparr>))
                      else Inr st2) = Inr st3 \<and> cityInv st3"
  proof (cases "currentMode st2 \<noteq> lastMode st2")
    case True
    obtain s where s: "initCurrentMode (server e) st2 = Inr s" "cityInv s"
      using initCurrentMode_cityInv [OF i2] by blast
    then have "cityInv (s\<lparr>lastMode := currentMode s\<rparr>)" by (simp add: cityInv_def)
    with True s show ?thesis by simp
  next
    case False
    then show ?thesis using i2 by simp
  qed
  then obtain st3 where s3: "(if currentMode st2 \<noteq> lastMode st2
                      then andThen (initCurrentMode (server e) st2)
                             (\<lambda>s. Inr (s\<lparr>lastMode := currentMode s\<rparr>))
                      else Inr st2) = Inr st3" "cityInv st3"
    by blast
  have "\<exists>st'. (if noMode (currentMode st3) then Inr st3
                  else if currentMode st3 = ''oled'' then Inr (loopOLED e st3)
                  else if currentMode st3 = ''pixel-paint'' then loopPixelPaint e st3
                  else if currentMode st3 = ''image-to-pixel'' then loopImageToPixel e st3
                  else if currentMode st3 = ''weather'' then loopWeather e st3
                  else Inr st3) = Inr st' \<and> cityInv st'"
    using s3(2) loopOLED_cityInv [of e st3] loopPixelPaint_cityInv [of st3 e]
      loopImageToPixel_cityInv [of st3 e] loopWeather_cityInv [of st3 e]
    by (simp del: One_nat_def)
  then show ?thesis using s1 s3(1)
    by (simp add: loop_def Let_def st2_def [symmetric] del: One_nat_def)
qed

lemma loops_cityInv:
  "cityInv st \<Longrightarrow> \<exists>st'. loops es st = Inr st' \<and> cityInv st'"
proof (induction es arbitrary: st)
  case Nil
  then show ?case by simp
next
  case (Cons e es)
  obtain s where s: "loop e st = Inr s" "cityInv s"
    using loop_cityInv [OF Cons.prems] by blast
  with Cons.IH [of s] show ?case by simp
qed

lemma initialDevice_cityInv: "cityInv (initialDevice\<lparr>apiKey := k\<rparr>)"
  by (simp add: cityInv_def initialDevice_def initialCities_def NUM_CITIES_def)

lemma setup_device_cityInv:
  "\<exists>st'. setup_device srv stored portal = Inr st' \<and> cityInv st'"
proof -
  define st0 where "st0 = initialDevice\<lparr>apiKey := (if take 4 stored \<noteq> ''esp_'' then [] else stored)\<rparr>"
  define st where "st = (case portal of None \<Rightarrow> st0 | Some v \<Rightarrow> saveConfigCallback v st0)"
  have i0: "cityInv st0" unfolding st0_def by (rule initialDevice_cityInv)
  have i: "cityInv st"
    using i0 by (simp add: st_def saveConfigCallback_cityInv split: option.splits)
  have i1: "cityInv (snd (fetchUserData srv st))"
    using i by (simp add: fetchUserData_cityInv)
  obtain s where s: "initCurrentMode srv (snd (fetchUserData srv st)) = Inr s" "cityInv s"
    using initCurrentMode_cityInv [OF i1] by blast
  show ?thesis
    using i i1 s
    by (simp add: setup_device_def Let_def st0_def [symmetric] st_def [symmetric]
          split: prod.splits del: One_nat_def)
      (metis snd_conv)
qed

lemma run_cityInv: "\<exists>st'. run srv stored portal es = Inr st' \<and> cityInv st'"
proof -
  obtain s where s: "setup_device srv stored portal = Inr s" "cityInv s"
    using setup_device_cityInv by blast
  with loops_cityInv [of s es] show ?thesis by (simp add: run_def)
qed

text \<open>
  Claim C7. The selected city index starts at -1; after \<open>setup()\<close> and any number of
  passes of \<open>loop()\<close>, against any backend and any inputs, the device has not faulted and
  the index is in \<open>[-1, NUM_CITIES - 1]\<close>; \<open>fetchWeatherSettings\<close> keeps the index in that
  range, and a response whose \<open>selectedCity\<close> is a value outside \<open>[0, NUM_CITIES - 1]\<close>
  leaves the index as it was.
\<close>

theorem selected_city_in_range:
  "currentCity initialDevice = -1
   \<and> (\<exists>st'. run srv stored portal es = Inr st'
          \<and> -1 \<le> currentCity st' \<and> currentCity st' \<le> NUM_CITIES - 1)
   \<and> (-1 \<le> currentCity st \<and> currentCity st \<le> NUM_CITIES - 1 \<longrightarrow>
        -1 \<le> currentCity (fetchWeatherSettings srv2 st)
        \<and> currentCity (fetchWeatherSettings srv2 st) \<le> NUM_CITIES - 1)
   \<and> (srv2 (length (httpLog st)) (API_BASE_URL @ ''/weather?apiKey='' @ apiKey st)
          = \<lparr>httpCode = HTTP_CODE_OK, body = Some doc\<rparr>
        \<and> containsKey doc ''selectedCity'' \<and> \<not> isNull (member doc ''selectedCity'')
        \<and> (asInt (member doc ''selectedCity'') < 0
             \<or> asInt (member doc ''selectedCity'') > NUM_CITIES - 1) \<longrightarrow>
        currentCity (fetchWeatherSettings srv2 st) = currentCity st)"
proof -
  have a: "currentCity initialDevice = -1" by (simp add: initialDevice_def)
  obtain st' where r: "run srv stored portal es = Inr st'" "cityInv st'"
    using run_cityInv by blast
  then have b: "\<exists>st'. run srv stored portal es = Inr st'
          \<and> -1 \<le> currentCity st' \<and> currentCity st' \<le> NUM_CITIES - 1"
    by (auto simp: cityInv_def)
  have c: "-1 \<le> currentCity (fetchWeatherSettings srv2 st)
        \<and> currentCity (fetchWeatherSettings srv2 st) \<le> NUM_CITIES - 1"
    if "-1 \<le> currentCity st \<and> currentCity st \<le> NUM_CITIES - 1"
    using that
    by (simp add: fetchWeatherSettings_def httpGET_def Let_def NUM_CITIES_def split: option.splits)
  have d: "currentCity (fetchWeatherSettings srv2 st) = currentCity st"
    if "srv2 (length (httpLog st)) (API_BASE_URL @ ''/weather?apiKey='' @ apiKey st)
          = \<lparr>httpCode = HTTP_CODE_OK, body = Some doc\<rparr>"
       "containsKey doc ''selectedCity''" "\<not> isNull (member doc ''selectedCity'')"
       "asInt (member doc ''selectedCity'') < 0
             \<or> asInt (member doc ''selectedCity'') > NUM_CITIES - 1"
    using that by (auto simp: fetchWeatherSettings_def httpGET_def Let_def)
  show ?thesis using a b c d by blast
qed

text \<open>
  The theorem at a device with city 5 selected and the response \<open>{"selectedCity": 99}\<close>.
\<close>

theorem selected_city_in_range_witness:
  "-1 \<le> currentCity (keyedDevice\<lparr>currentCity := 5\<rparr>)
   \<and> currentCity (keyedDevice\<lparr>currentCity := 5\<rparr>) \<le> NUM_CITIES - 1
   \<and> constantServer \<lparr>httpCode = HTTP_CODE_OK, body = Some (cityDoc 99 ''99'')\<rparr>
        (length (httpLog (keyedDevice\<lparr>currentCity := 5\<rparr>)))
        (API_BASE_URL @ ''/weather?apiKey='' @ apiKey (keyedDevice\<lparr>currentCity := 5\<rparr>))
       = \<lparr>httpCode = HTTP_CODE_OK, body = Some (cityDoc 99 ''99'')\<rparr>
   \<and> containsKey (cityDoc 99 ''99'') ''selectedCity''
   \<and> \<not> isNull (member (cityDoc 99 ''99'') ''selectedCity'')
   \<and> asInt (member (cityDoc 99 ''99'') ''selectedCity'') > NUM_CITIES - 1
   \<and> currentCity (fetchWeatherSettings
         (constantServer \<lparr>httpCode = HTTP_CODE_OK, body = Some (cityDoc 99 ''99'')\<rparr>)
         (keyedDevice\<lparr>currentCity := 5\<rparr>)) = 5"
  using selected_city_in_range [of
      "constantServer \<lparr>httpCode = HTTP_CODE_OK, body = Some (cityDoc 99 ''99'')\<rparr>"
      "[]" None "[]" "keyedDevice\<lparr>currentCity := 5\<rparr>"
      "constantServer \<lparr>httpCode = HTTP_CODE_OK, body = Some (cityDoc 99 ''99'')\<rparr>"
      "cityDoc 99 ''99''"]
  by (simp add: constantServer_def cityDoc_def containsKey_def member_def NUM_CITIES_def
        keyedDevice_def initialDevice_def)




section \<open>Entering weather mode\<close>

lemma sameMode_refl: "sameMode st st"
  by (simp add: sameMode_def)

lemma sameMode_trans: "sameMode a b \<Longrightarrow> sameMode b c \<Longrightarrow> sameMode a c"
  unfolding sameMode_def
  by (metis append_eq_conv_conj append_take_drop_id take_append min.absorb2 nat_le_linear take_all take_take)

lemma fetchWeatherSettings_sameMode: "sameMode st (fetchWeatherSettings srv st)"
  by (simp add: sameMode_def fetchWeatherSettings_def httpGET_def Let_def split: option.splits)

lemma fetchWeatherSettings_log:
  "httpLog (fetchWeatherSettings srv st) = httpLog st @ [API_BASE_URL @ ''/weather?apiKey='' @ apiKey st]"
  by (simp add: fetchWeatherSettings_def httpGET_def Let_def split: option.splits)

lemma applyTimezone_sameMode: "applyTimezone st = Inr st' \<Longrightarrow> sameMode st st'"
  by (auto simp: sameMode_def applyTimezone_def cityAt_def split: if_splits)

lemma fetchWeather_sameMode: "fetchWeather srv st = Inr st' \<Longrightarrow> sameMode st st'"
  by (auto simp: sameMode_def fetchWeather_def cityAt_def httpGET_def Let_def
        split: if_splits option.splits)

lemma loopWeather_sameMode:
  assumes "loopWeather e st = Inr st'"
  shows "sameMode st st'"
proof -
  define st1 where "st1 = (if modeNow e - lastWeatherSettingsFetch st > WEATHER_SETTINGS_INTERVAL
                 then (fetchWeatherSettings (server e) st)\<lparr>lastWeatherSettingsFetch := modeNow e\<rparr>
                 else st)"
  have m1: "sameMode st st1"
    using fetchWeatherSettings_sameMode [of st "server e"]
    by (simp add: st1_def sameMode_def)
  have lw: "loopWeather e st =
     (if currentCity st1 < 0 then Inr st1
         else if modeNow e - lastWeatherFetch st1 > WEATHER_FETCH_INTERVAL
                 \<or> currentCity st1 \<noteq> lastCity st1 then
           andThen (if currentCity st1 \<noteq> lastCity st1
                    then andThen (applyTimezone st1) (\<lambda>s. Inr (s\<lparr>lastCity := currentCity s\<rparr>))
                    else Inr st1)
             (\<lambda>st2. andThen (fetchWeather (server e) st2)
                (\<lambda>s. Inr (s\<lparr>weatherDataLoaded := True, lastWeatherFetch := modeNow e\<rparr>)))
         else Inr st1)"
    by (simp add: loopWeather_def Let_def st1_def [symmetric] del: One_nat_def)
  show ?thesis
  proof (cases "currentCity st1 < 0 \<or> \<not> (modeNow e - lastWeatherFetch st1 > WEATHER_FETCH_INTERVAL
                 \<or> currentCity st1 \<noteq> lastCity st1)")
    case True
    then have "st' = st1" using assms lw by (auto split: if_splits)
    then show ?thesis using m1 by simp
  next
    case False
    from False have nn: "\<not> currentCity st1 < 0"
      and due: "modeNow e - lastWeatherFetch st1 > WEATHER_FETCH_INTERVAL
                 \<or> currentCity st1 \<noteq> lastCity st1"
      by blast+
    define A where "A = (if currentCity st1 \<noteq> lastCity st1
                    then andThen (applyTimezone st1) (\<lambda>s. Inr (s\<lparr>lastCity := currentCity s\<rparr>))
                    else Inr st1)"
    have lw2: "loopWeather e st = andThen A (\<lambda>st2. andThen (fetchWeather (server e) st2)
                (\<lambda>s. Inr (s\<lparr>weatherDataLoaded := True, lastWeatherFetch := modeNow e\<rparr>)))"
      using nn due by (simp only: lw A_def [symmetric] if_False if_True)
    obtain st2 where a: "A = Inr st2"
      using assms lw2 by (cases A) simp_all
    obtain s where b: "fetchWeather (server e) st2 = Inr s"
      using assms lw2 a by (cases "fetchWeather (server e) st2") simp_all
    have c: "st' = s\<lparr>weatherDataLoaded := True, lastWeatherFetch := modeNow e\<rparr>"
      using assms lw2 a b by simp
    have m2: "sameMode st1 st2"
    proof (cases "currentCity st1 \<noteq> lastCity st1")
      case True
      then obtain t where t: "applyTimezone st1 = Inr t" "st2 = t\<lparr>lastCity := currentCity t\<rparr>"
        using a by (cases "applyTimezone st1") (simp_all add: A_def)
      then show ?thesis using applyTimezone_sameMode [OF t(1)] by (simp add: sameMode_def)
    next
      case False
      then show ?thesis using a by (simp add: sameMode_refl A_def)
    qed
    have m3: "sameMode st2 s" using b by (rule fetchWeather_sameMode)
    have m4: "sameMode s st'" using c by (simp add: sameMode_def)
    show ?thesis using m1 m2 m3 m4 sameMode_trans by blast
  qed
qed

lemma weather_not_noMode: "\<not> noMode ''weather''"
  by (simp add: noMode_def)

lemma weatherQuiet_iff:
  "weatherQuiet st st' =
     (apiKey st' = apiKey st
      \<and> lastWeatherSettingsFetch st' = lastWeatherSettingsFetch st
      \<and> (\<exists>more. httpLog st' = httpLog st @ more
            \<and> (API_BASE_URL @ ''/weather?apiKey='' @ apiKey st) \<notin> set more))"
  unfolding weatherQuiet_def
  by (metis append_eq_conv_conj append_take_drop_id)

lemma weatherQuiet_refl: "weatherQuiet st st"
  by (simp add: weatherQuiet_def)

lemma weatherQuiet_trans: "weatherQuiet a b \<Longrightarrow> weatherQuiet b c \<Longrightarrow> weatherQuiet a c"
  unfolding weatherQuiet_iff by auto

lemma fetchWeatherSettings_keeps:
  "apiKey (fetchWeatherSettings srv st) = apiKey st"
  "lastWeatherSettingsFetch (fetchWeatherSettings srv st) = lastWeatherSettingsFetch st"
  by (simp_all add: fetchWeatherSettings_def httpGET_def Let_def split: option.splits)

lemma applyTimezone_weatherQuiet: "applyTimezone st = Inr st' \<Longrightarrow> weatherQuiet st st'"
  by (auto simp: weatherQuiet_def applyTimezone_def cityAt_def split: if_splits)

lemma fetchWeather_weatherQuiet: "fetchWeather srv st = Inr st' \<Longrightarrow> weatherQuiet st st'"
  by (auto simp: weatherQuiet_def fetchWeather_def cityAt_def httpGET_def Let_def
        split: if_splits option.splits)

lemma loopWeather_weatherQuiet:
  assumes quiet: "\<not> modeNow e - lastWeatherSettingsFetch st > WEATHER_SETTINGS_INTERVAL"
    and run: "loopWeather e st = Inr st'"
  shows "weatherQuiet st st'"
proof -
  have lw: "loopWeather e st =
     (if currentCity st < 0 then Inr st
         else if modeNow e - lastWeatherFetch st > WEATHER_FETCH_INTERVAL
                 \<or> currentCity st \<noteq> lastCity st then
           andThen (if currentCity st \<noteq> lastCity st
                    then andThen (applyTimezone st) (\<lambda>s. Inr (s\<lparr>lastCity := currentCity s\<rparr>))
                    else Inr st)
             (\<lambda>st2. andThen (fetchWeather (server e) st2)
                (\<lambda>s. Inr (s\<lparr>weatherDataLoaded := True, lastWeatherFetch := modeNow e\<rparr>)))
         else Inr st)"
    using quiet by (simp add: loopWeather_def Let_def del: One_nat_def)
  show ?thesis
  proof (cases "currentCity st < 0 \<or> \<not> (modeNow e - lastWeatherFetch st > WEATHER_FETCH_INTERVAL
                 \<or> currentCity st \<noteq> lastCity st)")
    case True
    then have "st' = st" using run lw by (auto split: if_splits)
    then show ?thesis by (simp add: weatherQuiet_refl)
  next
    case False
    from False have nn: "\<not> currentCity st < 0"
      and due: "modeNow e - lastWeatherFetch st > WEATHER_FETCH_INTERVAL
                 \<or> currentCity st \<noteq> lastCity st"
      by blast+
    define A where "A = (if currentCity st \<noteq> lastCity st
                    then andThen (applyTimezone st) (\<lambda>s. Inr (s\<lparr>lastCity := currentCity s\<rparr>))
                    else Inr st)"
    have lw2: "loopWeather e st = andThen A (\<lambda>st2. andThen (fetchWeather (server e) st2)
                (\<lambda>s. Inr (s\<lparr>weatherDataLoaded := True, lastWeatherFetch := modeNow e\<rparr>)))"
      using nn due by (simp only: lw A_def [symmetric] if_False if_True)
    obtain st2 where a: "A = Inr st2"
      using run lw2 by (cases A) simp_all
    obtain s where b: "fetchWeather (server e) st2 = Inr s"
      using run lw2 a by (cases "fetchWeather (server e) st2") simp_all
    have c: "st' = s\<lparr>weatherDataLoaded := True, lastWeatherFetch := modeNow e\<rparr>"
      using run lw2 a b by simp
    have q2: "weatherQuiet st st2"
    proof (cases "currentCity st \<noteq> lastCity st")
      case True
      then obtain t where t: "applyTimezone st = Inr t" "st2 = t\<lparr>lastCity := currentCity t\<rparr>"
        using a by (cases "applyTimezone st") (simp_all add: A_def)
      then show ?thesis using applyTimezone_weatherQuiet [OF t(1)] by (simp add: weatherQuiet_def)
    next
      case False
      then show ?thesis using a by (simp add: weatherQuiet_refl A_def)
    qed
    have q3: "weatherQuiet st2 s" using b by (rule fetchWeather_weatherQuiet)
    have q4: "weatherQuiet s st'" using c by (simp add: weatherQuiet_def)
    show ?thesis using q2 q3 q4 weatherQuiet_trans by blast
  qed
qed

text \<open>
  Claim C9 as stated fails: the sketch reads the member \<open>activeSketch\<close>, so the body
  \<open>{"activeMode":"weather"}\<close> yields the mode \<open>null\<close>; the pass ends in no mode and the only
  request issued is the mode query.
\<close>

theorem activeMode_key_counterexample:
  "loop (pollEnv (constantServer \<lparr>httpCode = HTTP_CODE_OK, body = Some (modeDoc ''activeMode'' ''weather'')\<rparr>)) keyedDevice
     = Inr (keyedDevice\<lparr>userId := ''null'', currentMode := ''null'', lastMode := ''null'',
              lastModeCheck := 5000, httpLog := [API_BASE_URL @ ''/device?apiKey=esp_demo'']\<rparr>)
   \<and> ''null'' \<noteq> ''weather''"
  by (simp add: loop_def checkConfigButton_def pollEnv_def constantServer_def keyedDevice_def
        initialDevice_def MODE_CHECK_INTERVAL_def fetchUserData_def httpGET_def Let_def
        HTTP_CODE_OK_def modeDoc_def member_def nullVariant_def initCurrentMode_def noMode_def)

text \<open>
  Claim C9, amended. When weather is not the mode last entered (\<open>lastMode\<close> is not
  \<open>weather\<close>; this holds after boot and whenever no mode is active and none was entered
  since weather was left), the button is not pressed, WiFi is connected and the mode poll
  is due, a mode-query response with status 200 whose \<open>activeSketch\<close> is \<open>weather\<close> puts the
  device into weather mode within that pass of \<open>loop()\<close>, and the request right after the
  mode query is the weather-settings fetch. It is the fetch of mode entry: when the
  periodic weather-settings fetch is not due in that pass, the pass issues no other
  weather-settings request. The theorem holds whatever mode was active before the poll.
\<close>

theorem weather_mode_entry:
  assumes btn: "button e = Released"
    and key: "apiKey st \<noteq> []"
    and wifi: "wifiConnected e"
    and due: "now e - lastModeCheck st > MODE_CHECK_INTERVAL"
    and last: "lastMode st \<noteq> ''weather''"
    and resp: "server e (length (httpLog st)) (API_BASE_URL @ ''/device?apiKey='' @ apiKey st)
                 = \<lparr>httpCode = HTTP_CODE_OK, body = Some doc\<rparr>"
    and mode: "asString (member doc ''activeSketch'') = ''weather''"
    and inv: "cityInv st"
  shows "\<exists>st' more. loop e st = Inr st' \<and> currentMode st' = ''weather''
           \<and> lastMode st' = ''weather''
           \<and> httpLog st' = httpLog st @ [API_BASE_URL @ ''/device?apiKey='' @ apiKey st,
                                          API_BASE_URL @ ''/weather?apiKey='' @ apiKey st] @ more
           \<and> (\<not> modeNow e - lastWeatherSettingsFetch st > WEATHER_SETTINGS_INTERVAL \<longrightarrow>
                 (API_BASE_URL @ ''/weather?apiKey='' @ apiKey st) \<notin> set more)"
proof -
  let ?dev = "API_BASE_URL @ ''/device?apiKey='' @ apiKey st"
  let ?wea = "API_BASE_URL @ ''/weather?apiKey='' @ apiKey st"
  define sa where "sa = snd (fetchUserData (server e) st)"
  have sa: "sa = st\<lparr>httpLog := httpLog st @ [?dev], userId := asString (member doc ''userId''),
                    currentMode := ''weather''\<rparr>"
    using resp mode by (simp add: sa_def fetchUserData_def httpGET_def Let_def)
  define st2 where "st2 = sa\<lparr>lastModeCheck := now e\<rparr>"
  define sw where "sw = st2\<lparr>dataLoaded := False, weatherDataLoaded := False\<rparr>"
  define st1 where "st1 = fetchWeatherSettings (server e) sw"
  have sw_fields: "currentMode sw = ''weather''" "lastMode sw = lastMode st"
      "httpLog sw = httpLog st @ [?dev]" "apiKey sw = apiKey st"
      "lastWeatherSettingsFetch sw = lastWeatherSettingsFetch st"
    by (simp_all add: sw_def st2_def sa)
  have i_sw: "cityInv sw" using inv by (simp add: sw_def st2_def sa cityInv_def)
  have i1: "cityInv st1" unfolding st1_def using i_sw by (rule fetchWeatherSettings_cityInv)
  have m1: "sameMode sw st1" unfolding st1_def by (rule fetchWeatherSettings_sameMode)
  have log1: "httpLog st1 = httpLog st @ [?dev, ?wea]"
    unfolding st1_def by (simp add: fetchWeatherSettings_log sw_fields)
  have k1: "apiKey st1 = apiKey st" "lastWeatherSettingsFetch st1 = lastWeatherSettingsFetch st"
    unfolding st1_def by (simp_all add: fetchWeatherSettings_keeps sw_fields)
  have init: "initCurrentMode (server e) st2 =
                (if currentCity st1 \<ge> 0 then andThen (applyTimezone st1) (fetchWeather (server e))
                 else Inr st1)"
    by (simp add: initCurrentMode_def Let_def weather_not_noMode st2_def sa st1_def sw_def
          del: One_nat_def)
  obtain s where s: "initCurrentMode (server e) st2 = Inr s" "cityInv s"
    using initCurrentMode_cityInv [of st2 "server e"] inv
    by (auto simp: st2_def sa cityInv_def)
  have m2: "sameMode st1 s \<and> weatherQuiet st1 s"
  proof (cases "currentCity st1 \<ge> 0")
    case True
    then obtain t where t: "applyTimezone st1 = Inr t" "fetchWeather (server e) t = Inr s"
      using init s(1) by (cases "applyTimezone st1") simp_all
    then show ?thesis
      using applyTimezone_sameMode fetchWeather_sameMode sameMode_trans
        applyTimezone_weatherQuiet fetchWeather_weatherQuiet weatherQuiet_trans by blast
  next
    case False
    then show ?thesis using init s(1) by (simp add: sameMode_refl weatherQuiet_refl)
  qed
  define st3 where "st3 = s\<lparr>lastMode := currentMode s\<rparr>"
  have ms: "sameMode sw s" using m1 m2 sameMode_trans by blast
  have s_mode: "currentMode s = ''weather''" using ms sw_fields by (simp add: sameMode_def)
  obtain more1 where more1: "httpLog s = httpLog st1 @ more1" "?wea \<notin> set more1"
    "apiKey s = apiKey st" "lastWeatherSettingsFetch s = lastWeatherSettingsFetch st"
    using m2 k1 unfolding weatherQuiet_iff by auto
  have st3_fields: "currentMode st3 = ''weather''" "lastMode st3 = ''weather''"
     "httpLog st3 = httpLog st @ [?dev, ?wea] @ more1" "cityInv st3"
     "apiKey st3 = apiKey st" "lastWeatherSettingsFetch st3 = lastWeatherSettingsFetch st"
    using s_mode more1 log1 s(2) by (simp_all add: st3_def cityInv_def)
  obtain st' where st': "loopWeather e st3 = Inr st'"
    using loopWeather_cityInv [OF st3_fields(4)] by blast
  have m4: "sameMode st3 st'" using st' by (rule loopWeather_sameMode)
  define more2 where "more2 = drop (length (httpLog st3)) (httpLog st')"
  have log4: "httpLog st' = httpLog st3 @ more2"
    using m4 unfolding sameMode_def more2_def by (metis append_take_drop_id)
  have quiet: "?wea \<notin> set more2"
    if "\<not> modeNow e - lastWeatherSettingsFetch st > WEATHER_SETTINGS_INTERVAL"
  proof -
    have "weatherQuiet st3 st'"
      using that st' by (intro loopWeather_weatherQuiet) (simp_all add: st3_fields)
    then show ?thesis
      by (simp add: weatherQuiet_def more2_def st3_fields(5))
  qed
  have fin: "currentMode st' = ''weather''" "lastMode st' = ''weather''"
    using m4 st3_fields(1,2) by (simp_all add: sameMode_def)
  have fin_log: "httpLog st' = httpLog st @ [?dev, ?wea] @ (more1 @ more2)"
    using log4 st3_fields(3) by simp
  have fin_quiet: "\<not> modeNow e - lastWeatherSettingsFetch st > WEATHER_SETTINGS_INTERVAL \<longrightarrow>
                 ?wea \<notin> set (more1 @ more2)"
    using quiet more1(2) by simp
  have changed: "currentMode st2 \<noteq> lastMode st2"
    using last by (auto simp: st2_def sa)
  have "loop e st = loopWeather e st3"
    using btn key wifi due changed s(1) st3_fields(1)
    by (simp add: loop_def checkConfigButton_def Let_def sa_def [symmetric] st2_def [symmetric]
          st3_def [symmetric] weather_not_noMode del: One_nat_def)
  then have "loop e st = Inr st'" using st' by simp
  then show ?thesis using fin fin_log fin_quiet by blast
qed

text \<open>
  The condition on \<open>lastMode\<close> cannot be dropped: with no mode active but \<open>weather\<close> still
  the mode last entered (a long press in weather mode that fetches the mode \<open>none\<close>, in a
  pass that then finds WiFi down, leaves the device so), the same response makes \<open>currentMode\<close> equal to \<open>lastMode\<close>, \<open>initCurrentMode\<close> is not
  called and the pass issues the mode query only.
\<close>

lemma no_entry_fetch_after_weather:
  "loop (pollEnv weatherModeServer) (idleDevice\<lparr>lastMode := ''weather''\<rparr>)
     = Inr (idleDevice\<lparr>userId := ''null'', currentMode := ''weather'', lastMode := ''weather'',
              lastModeCheck := 5000,
              httpLog := [API_BASE_URL @ ''/device?apiKey=esp_demo'']\<rparr>)"
  by (simp add: loop_def checkConfigButton_def pollEnv_def weatherModeServer_def idleDevice_def
        keyedDevice_def initialDevice_def MODE_CHECK_INTERVAL_def WEATHER_SETTINGS_INTERVAL_def
        fetchUserData_def loopWeather_def httpGET_def Let_def
        HTTP_CODE_OK_def modeDoc_def member_def nullVariant_def jsonWord_def
        noMode_def API_BASE_URL_def)

text \<open>
  The theorem at a device that left weather mode a second ago (no mode active, mode poll
  due, periodic weather-settings fetch not due) against a backend that answers only the
  mode query: the pass issues exactly two requests, the mode query and the
  weather-settings fetch of mode entry. And at the device right after boot, where
  \<open>lastMode\<close> is still empty.
\<close>

theorem weather_mode_entry_witness:
  "button (pollEnv weatherModeServer) = Released
   \<and> apiKey idleDevice = ''esp_demo''
   \<and> noMode (currentMode idleDevice) \<and> lastMode idleDevice = ''none''
   \<and> modeNow (pollEnv weatherModeServer) - lastWeatherSettingsFetch idleDevice = 1000
   \<and> WEATHER_SETTINGS_INTERVAL = 3000
   \<and> loop (pollEnv weatherModeServer) idleDevice
       = Inr (idleDevice\<lparr>userId := ''null'', currentMode := ''weather'', lastMode := ''weather'',
                lastModeCheck := 5000,
                httpLog := [API_BASE_URL @ ''/device?apiKey=esp_demo'',
                            API_BASE_URL @ ''/weather?apiKey=esp_demo'']\<rparr>)
   \<and> noMode (currentMode bootedDevice) \<and> lastMode bootedDevice = []
   \<and> (\<exists>st' more. loop (pollEnv weatherModeServer) bootedDevice = Inr st'
         \<and> currentMode st' = ''weather'' \<and> lastMode st' = ''weather''
         \<and> httpLog st' = [API_BASE_URL @ ''/device?apiKey=esp_demo'',
                           API_BASE_URL @ ''/weather?apiKey=esp_demo''] @ more)"
proof -
  let ?e = "pollEnv weatherModeServer"
  let ?doc = "modeDoc ''activeSketch'' ''weather''"
  have btn: "button ?e = Released" by (simp add: pollEnv_def)
  have wifi: "wifiConnected ?e" by (simp add: pollEnv_def)
  have mode: "asString (member ?doc ''activeSketch'') = ''weather''"
    by (simp add: modeDoc_def member_def jsonWord_def)
  have idle: "apiKey idleDevice = ''esp_demo''" "httpLog idleDevice = []"
    "noMode (currentMode idleDevice)" "lastMode idleDevice = ''none''"
    "lastWeatherSettingsFetch idleDevice = 4000" "lastModeCheck idleDevice = 1000"
    by (simp_all add: idleDevice_def keyedDevice_def initialDevice_def noMode_def)
  have boot: "apiKey bootedDevice = ''esp_demo''" "httpLog bootedDevice = []"
    "noMode (currentMode bootedDevice)" "lastMode bootedDevice = []"
    "lastModeCheck bootedDevice = 0"
    by (simp_all add: bootedDevice_def keyedDevice_def initialDevice_def noMode_def)
  have inv1: "cityInv idleDevice"
    using initialDevice_cityInv [of "''esp_demo''"]
    by (simp add: idleDevice_def keyedDevice_def cityInv_def)
  have inv2: "cityInv bootedDevice"
    using initialDevice_cityInv [of "''esp_demo''"]
    by (simp add: bootedDevice_def keyedDevice_def cityInv_def)
  have key1: "apiKey idleDevice \<noteq> []" by (simp add: idle)
  have key2: "apiKey bootedDevice \<noteq> []" by (simp add: boot)
  have due1: "now ?e - lastModeCheck idleDevice > MODE_CHECK_INTERVAL"
    by (simp add: pollEnv_def idle MODE_CHECK_INTERVAL_def)
  have due2: "now ?e - lastModeCheck bootedDevice > MODE_CHECK_INTERVAL"
    by (simp add: pollEnv_def boot MODE_CHECK_INTERVAL_def)
  have last1: "lastMode idleDevice \<noteq> ''weather''" by (simp add: idle)
  have last2: "lastMode bootedDevice \<noteq> ''weather''" by (simp add: boot)
  have resp1: "server ?e (length (httpLog idleDevice))
                (API_BASE_URL @ ''/device?apiKey='' @ apiKey idleDevice)
                 = \<lparr>httpCode = HTTP_CODE_OK, body = Some ?doc\<rparr>"
    by (simp add: pollEnv_def weatherModeServer_def idle)
  have resp2: "server ?e (length (httpLog bootedDevice))
                (API_BASE_URL @ ''/device?apiKey='' @ apiKey bootedDevice)
                 = \<lparr>httpCode = HTTP_CODE_OK, body = Some ?doc\<rparr>"
    by (simp add: pollEnv_def weatherModeServer_def boot)
  have gap: "modeNow ?e - lastWeatherSettingsFetch idleDevice = 1000"
    "WEATHER_SETTINGS_INTERVAL = 3000"
    by (simp_all add: pollEnv_def idle WEATHER_SETTINGS_INTERVAL_def)
  have notdue: "\<not> modeNow ?e - lastWeatherSettingsFetch idleDevice > WEATHER_SETTINGS_INTERVAL"
    by (simp add: pollEnv_def idle WEATHER_SETTINGS_INTERVAL_def)
  have run1: "loop ?e idleDevice
       = Inr (idleDevice\<lparr>userId := ''null'', currentMode := ''weather'', lastMode := ''weather'',
                lastModeCheck := 5000,
                httpLog := [API_BASE_URL @ ''/device?apiKey=esp_demo'',
                            API_BASE_URL @ ''/weather?apiKey=esp_demo'']\<rparr>)"
    by (simp add: loop_def checkConfigButton_def pollEnv_def weatherModeServer_def idleDevice_def
        keyedDevice_def initialDevice_def MODE_CHECK_INTERVAL_def WEATHER_SETTINGS_INTERVAL_def
        fetchUserData_def fetchWeatherSettings_def loopWeather_def httpGET_def Let_def
        HTTP_CODE_OK_def modeDoc_def member_def nullVariant_def jsonWord_def
        initCurrentMode_def noMode_def API_BASE_URL_def)
  have ex1: "\<exists>st' more. loop ?e idleDevice = Inr st' \<and> currentMode st' = ''weather''
           \<and> lastMode st' = ''weather''
           \<and> httpLog st' = [API_BASE_URL @ ''/device?apiKey=esp_demo'',
                             API_BASE_URL @ ''/weather?apiKey=esp_demo''] @ more
           \<and> (API_BASE_URL @ ''/weather?apiKey=esp_demo'') \<notin> set more"
    using weather_mode_entry [OF btn key1 wifi due1 last1 resp1 mode inv1] notdue
    by (simp add: idle)
  have ex2: "\<exists>st' more. loop ?e bootedDevice = Inr st' \<and> currentMode st' = ''weather''
           \<and> lastMode st' = ''weather''
           \<and> httpLog st' = [API_BASE_URL @ ''/device?apiKey=esp_demo'',
                             API_BASE_URL @ ''/weather?apiKey=esp_demo''] @ more"
    using weather_mode_entry [OF btn key2 wifi due2 last2 resp2 mode inv2]
    by (simp add: boot) blast
  show ?thesis using btn idle(1,3,4) boot(3,4) gap run1 ex1 ex2 by simp
qed

end
